theory Spec2Isabelle
  imports Main
begin

section \<open>JavaScript values\<close>

text \<open>
  The values that flow through the server: what a handler passes to \<^verbatim>\<open>res.json\<close>, what
  \<^verbatim>\<open>settings.json\<close> parses to, and the metadata object a route module exports.  An object
  is its list of own enumerable properties in insertion order; a well-formed object has
  pairwise distinct keys.  Numbers are integers here: the program only ever tests a number
  for truthiness and turns it into a property key.
\<close>

datatype jsval =
    JUndefined
  | JNull
  | JBool bool
  | JNum int
  | JStr string
  | JArr "jsval list"
  | JObj "(string \<times> jsval) list"

text \<open>ToBoolean: what \<^verbatim>\<open>if (v)\<close>, \<^verbatim>\<open>!v\<close>, \<^verbatim>\<open>v && w\<close> and \<^verbatim>\<open>v || w\<close> test.\<close>

fun truthy :: "jsval \<Rightarrow> bool" where
  "truthy JUndefined = False"
| "truthy JNull = False"
| "truthy (JBool b) = b"
| "truthy (JNum n) = (n \<noteq> 0)"
| "truthy (JStr s) = (s \<noteq> [])"
| "truthy (JArr xs) = True"
| "truthy (JObj kvs) = True"

fun js_typeof :: "jsval \<Rightarrow> string" where
  "js_typeof JUndefined = ''undefined''"
| "js_typeof JNull = ''object''"
| "js_typeof (JBool b) = ''boolean''"
| "js_typeof (JNum n) = ''number''"
| "js_typeof (JStr s) = ''string''"
| "js_typeof (JArr xs) = ''object''"
| "js_typeof (JObj kvs) = ''object''"

text \<open>\<^verbatim>\<open>a || b\<close> on values.\<close>

definition js_or :: "jsval \<Rightarrow> jsval \<Rightarrow> jsval" where
  "js_or a b = (if truthy a then a else b)"

text \<open>Decimal rendering of an array index or an integer (Number::toString).\<close>

definition digit_char :: "nat \<Rightarrow> char" where
  "digit_char d = ''0123456789'' ! (d mod 10)"

function show_nat :: "nat \<Rightarrow> string" where
  "show_nat n = (if n < 10 then [digit_char n] else show_nat (n div 10) @ [digit_char (n mod 10)])"
  by pat_completeness auto
termination
  by (relation "measure id") auto

definition show_int :: "int \<Rightarrow> string" where
  "show_int i = (if i < 0 then CHR ''-'' # show_nat (nat (- i)) else show_nat (nat i))"

text \<open>
  The own enumerable properties of a value, as object spread \<^verbatim>\<open>{...v}\<close> copies them:
  those of an object; of an array its elements under the keys \<^verbatim>\<open>"0"\<close>, \<^verbatim>\<open>"1"\<close>, ...
  (\<^verbatim>\<open>length\<close> is not enumerable); none for \<^verbatim>\<open>undefined\<close>, \<^verbatim>\<open>null\<close>, booleans and numbers.
  A string would spread into its characters; the program never spreads one.
\<close>

fun own_props :: "jsval \<Rightarrow> (string \<times> jsval) list" where
  "own_props (JObj kvs) = kvs"
| "own_props (JArr xs) = zip (map show_nat [0..<length xs]) xs"
| "own_props v = []"

text \<open>
  Property read \<^verbatim>\<open>v.k\<close> on a value that is neither \<^verbatim>\<open>undefined\<close> nor \<^verbatim>\<open>null\<close>.  No key the
  program reads (\<^verbatim>\<open>status\<close>, \<^verbatim>\<open>name\<close>, \<^verbatim>\<open>path\<close>, \<^verbatim>\<open>method\<close>, \<^verbatim>\<open>category\<close>, ...) is defined
  on a built-in prototype of these values, so a key that is not an own property reads as
  \<^verbatim>\<open>undefined\<close>.
\<close>

definition get_prop :: "jsval \<Rightarrow> string \<Rightarrow> jsval" where
  "get_prop v k = (case map_of (own_props v) k of Some x \<Rightarrow> x | None \<Rightarrow> JUndefined)"

text \<open>
  What a \<^verbatim>\<open>throw\<close> or a rejected promise carries: an Error object with its message and its
  stack, or any other value (\<^verbatim>\<open>throw undefined\<close>, \<^verbatim>\<open>Promise.reject()\<close>, \<^verbatim>\<open>throw 'text'\<close>).
\<close>

datatype thrown = Error string string | Thrown jsval

text \<open>The message of the TypeError raised by reading \<^verbatim>\<open>.message\<close> of \<^verbatim>\<open>undefined\<close> or \<^verbatim>\<open>null\<close>.\<close>

definition msg_read_message :: "jsval \<Rightarrow> string" where
  "msg_read_message v =
     ''Cannot read properties of '' @ (if v = JNull then ''null'' else ''undefined'')
       @ '' (reading '' @ [CHR 0x27] @ ''message'' @ [CHR 0x27] @ '')''"

text \<open>
  \<^verbatim>\<open>error.message\<close> in a \<^verbatim>\<open>catch (error)\<close> block: \<open>Inr\<close> the value read, \<open>Inl\<close> the message of the
  TypeError the read itself raises when the caught value is \<^verbatim>\<open>undefined\<close> or \<^verbatim>\<open>null\<close>.
\<close>

fun message_of :: "thrown \<Rightarrow> string + jsval" where
  "message_of (Error m k) = Inr (JStr m)"
| "message_of (Thrown v) =
     (if v = JUndefined \<or> v = JNull then Inl (msg_read_message v) else Inr (get_prop v ''message''))"

text \<open>
  Defining a property in an object literal or by assignment: an existing key keeps its
  place and takes the new value, a new key is appended.
\<close>

fun set_prop :: "string \<Rightarrow> jsval \<Rightarrow> (string \<times> jsval) list \<Rightarrow> (string \<times> jsval) list" where
  "set_prop k v [] = [(k, v)]"
| "set_prop k v (p # ps) = (if fst p = k then (k, v) # ps else p # set_prop k v ps)"

text \<open>\<^verbatim>\<open>{ ...base, ...data }\<close>: the properties of \<^verbatim>\<open>data\<close> defined one by one on top of \<^verbatim>\<open>base\<close>.\<close>

definition spread :: "(string \<times> jsval) list \<Rightarrow> jsval \<Rightarrow> (string \<times> jsval) list" where
  "spread base data = fold (\<lambda>(k, v) acc. set_prop k v acc) (own_props data) base"

section \<open>Deployments and settings\<close>

text \<open>
  The repository holds the same server twice: the \<^verbatim>\<open>/api\<close> deployment and the
  \<^verbatim>\<open>/ladybug\<close> deployment.  They differ in the prefix, the texts and a few field names.
\<close>

datatype flavor = Api | Ladybug

fun prefix_of :: "flavor \<Rightarrow> string" where
  "prefix_of Api = ''/api''"
| "prefix_of Ladybug = ''/ladybug''"

text \<open>The ladybug emoji U+1F41E, as its UTF-8 bytes.\<close>

definition ladybug_mark :: string where
  "ladybug_mark = [CHR 0xF0, CHR 0x9F, CHR 0x90, CHR 0x9E]"

text \<open>
  What the envelope and the loader read of the parsed \<^verbatim>\<open>settings.json\<close>:
  \<open>s_operator\<close> is \<^verbatim>\<open>settings.apiSettings && settings.apiSettings.operator\<close> and
  \<open>s_version\<close> is \<^verbatim>\<open>settings.version\<close>, each \<open>JUndefined\<close> when absent.  The Ladybug
  loader reads \<^verbatim>\<open>settings.apiSettings.operator\<close> without the guard; that deployment prints
  the same expression in its startup banner before it loads anything, so the object is
  there when the loader runs, and under \<^verbatim>\<open>||\<close> the two reads choose alike.
\<close>

record settings =
  s_operator :: jsval
  s_version :: jsval

section \<open>The response envelope\<close>

text \<open>
  The fields the patched \<^verbatim>\<open>res.json\<close> writes before it spreads the handler's data;
  \<open>now\<close> is what \<^verbatim>\<open>new Date().toISOString()\<close> returns in that call.
\<close>

fun envelope_fields :: "flavor \<Rightarrow> settings \<Rightarrow> string \<Rightarrow> jsval \<Rightarrow> (string \<times> jsval) list" where
  "envelope_fields Api s now data =
     [(''status'', js_or (get_prop data ''status'') (JStr ''success'')),
      (''operator'', js_or (s_operator s) (JStr ''Ladybug APIs'')),
      (''timestamp'', JStr now),
      (''version'', js_or (s_version s) (JStr ''1.0.0''))]"
| "envelope_fields Ladybug s now data =
     [(''status'', js_or (get_prop data ''status'') (JStr ''success'')),
      (''developer'', js_or (s_operator s) (JStr ''AjiroDesu'')),
      (''framework'', JStr ''Ladybug API Framework''),
      (''version'', js_or (s_version s) (JStr ''Ladybug bot'')),
      (''timestamp'', JStr now),
      (''ladybug'', JStr ladybug_mark)]"

text \<open>
  The patched \<^verbatim>\<open>res.json\<close>: the value it hands to the original \<^verbatim>\<open>res.json\<close>, which
  serialises it for the client.
\<close>

definition res_json :: "flavor \<Rightarrow> settings \<Rightarrow> string \<Rightarrow> jsval \<Rightarrow> jsval" where
  "res_json flv s now data =
     (if truthy data \<and> js_typeof data = ''object''
      then JObj (spread (envelope_fields flv s now data) data)
      else data)"


section \<open>Strings and paths\<close>

text \<open>\<^verbatim>\<open>s.split(c)\<close> for a one-character separator: never empty, cut at every occurrence.\<close>

fun split_on :: "char \<Rightarrow> string \<Rightarrow> string list" where
  "split_on c [] = [[]]"
| "split_on c (x # xs) =
     (if x = c then [] # split_on c xs
      else (case split_on c xs of w # ws \<Rightarrow> (x # w) # ws | [] \<Rightarrow> [[x]]))"

text \<open>
  Indexing an array of strings and appending the element to a string: an index out of
  range reads \<^verbatim>\<open>undefined\<close>, which string concatenation renders as such.
\<close>

definition index_str :: "string list \<Rightarrow> nat \<Rightarrow> string" where
  "index_str ws i = (if i < length ws then ws ! i else ''undefined'')"

text \<open>\<^verbatim>\<open>s.toLowerCase()\<close> on the ASCII letters; other bytes stay.\<close>

definition lower_char :: "char \<Rightarrow> char" where
  "lower_char c =
     (case map_of (zip ''ABCDEFGHIJKLMNOPQRSTUVWXYZ'' ''abcdefghijklmnopqrstuvwxyz'') c of
        Some l \<Rightarrow> l | None \<Rightarrow> c)"

definition toLowerCase :: "string \<Rightarrow> string" where
  "toLowerCase s = map lower_char s"

text \<open>
  Node's \<^verbatim>\<open>path.extname\<close> on a directory entry's name (no separator in it): from the last
  dot to the end; empty when there is no dot, when the last dot is the first character,
  and for \<^verbatim>\<open>..\<close>.
\<close>

definition path_extname :: "string \<Rightarrow> string" where
  "path_extname f =
     (if CHR ''.'' \<notin> set f then []
      else if tl (dropWhile (\<lambda>c. c \<noteq> CHR ''.'') (rev f)) = [] then []
      else if f = ''..'' then []
      else CHR ''.'' # rev (takeWhile (\<lambda>c. c \<noteq> CHR ''.'') (rev f)))"

text \<open>
  \<^verbatim>\<open>path.join(dir, file)\<close> for the absolute, normalised directory the scan starts from and
  an entry's name as \<^verbatim>\<open>readdirSync\<close> lists it.
\<close>

definition path_join :: "string \<Rightarrow> string \<Rightarrow> string" where
  "path_join dir file = dir @ ''/'' @ file"

section \<open>The module loader\<close>

text \<open>
  What \<^verbatim>\<open>module.onStart\<close> (\<^verbatim>\<open>module.execute\<close> in the Ladybug deployment) holds: a function,
  named here by a number, or some other value (\<open>JUndefined\<close> when the module exports none).
\<close>

datatype export = Func nat | Data jsval

text \<open>
  What \<^verbatim>\<open>require(filePath)\<close> and the two reads of the exports give: either what was thrown
  (by a syntax error, by the module's body, by reading exports that are \<^verbatim>\<open>null\<close>), or the
  values of \<^verbatim>\<open>module.meta\<close> and \<^verbatim>\<open>module.onStart\<close>.  Metadata is data: no function occurs
  inside it.
\<close>

datatype required = RequireThrows thrown | Exports jsval export

text \<open>
  The directory tree as the scan finds it.  A folder is what \<^verbatim>\<open>existsSync\<close> and
  \<^verbatim>\<open>readdirSync\<close> give for a path: it does not exist, listing it throws an error of the given
  message (it is a file, or may not be read), or it lists its entries in order.  An entry
  is what \<^verbatim>\<open>statSync\<close> gives for it: a directory, a regular file (with what requiring it
  gives and what \<^verbatim>\<open>new Date().toISOString()\<close> returns while it is processed), something that
  is neither, or nothing but an error of the given message (a dangling symbolic link).
\<close>

datatype dirent =
    Directory string folder
  | RegularFile string required string
  | Special string
  | Dangling string string
and folder =
    Absent
  | Unlistable string
  | Listing "dirent list"

text \<open>
  A route on the Express application: the method it was registered with, its path, the
  module's handler the wrapper calls, and the module's name the wrapper prints.
\<close>

record route =
  r_method :: string
  r_path :: string
  r_handler :: nat
  r_name :: jsval

text \<open>The record the \<^verbatim>\<open>catch\<close> block pushes: \<^verbatim>\<open>{file, error, timestamp}\<close>.\<close>

record LoadError =
  file' :: string
  error :: jsval
  timestamp :: string

text \<open>
  The module-level state of the server: the counter, the registry, the error list, and
  the routes registered on the Express application by \<^verbatim>\<open>app[method](routePath, ...)\<close>,
  in registration order.
\<close>

record server =
  totalRoutes :: nat
  apiModules :: "jsval list"
  loadErrors :: "LoadError list"
  routes :: "route list"

definition initial :: server where
  "initial = \<lparr>totalRoutes = 0, apiModules = [], loadErrors = [], routes = []\<rparr>"

definition validMethods :: "string list" where
  "validMethods = [''get'', ''post'', ''put'', ''delete'', ''patch'', ''head'', ''options'']"

text \<open>The names by which the two deployments call the same things.\<close>

fun meta_key :: "flavor \<Rightarrow> string" where
  "meta_key Api = ''meta''"
| "meta_key Ladybug = ''config''"

fun path_key :: "flavor \<Rightarrow> string" where
  "path_key Api = ''path''"
| "path_key Ladybug = ''endpoint''"

fun msg_no_meta :: "flavor \<Rightarrow> string" where
  "msg_no_meta Api = ''Missing or invalid meta object''"
| "msg_no_meta Ladybug = ''Missing or invalid config object (Ladybug modules require config)''"

fun msg_no_handler :: "flavor \<Rightarrow> string" where
  "msg_no_handler Api = ''Missing or invalid onStart function''"
| "msg_no_handler Ladybug = ''Missing or invalid execute function (Ladybug modules require execute)''"

fun msg_no_path_name :: "flavor \<Rightarrow> string" where
  "msg_no_path_name Api = ''Missing required meta.path or meta.name''"
| "msg_no_path_name Ladybug = ''Missing required config.endpoint or config.name''"

text \<open>
  The messages of the TypeErrors the engine raises when \<^verbatim>\<open>split\<close> is called on a path that
  is not a string, or \<^verbatim>\<open>toLowerCase\<close> on a method that is not one.
\<close>

definition msg_split_type :: "flavor \<Rightarrow> string" where
  "msg_split_type flv = ''module.'' @ meta_key flv @ ''.'' @ path_key flv @ ''.split is not a function''"

definition msg_lower_type :: "flavor \<Rightarrow> string" where
  "msg_lower_type flv = ''(intermediate value).toLowerCase is not a function''"

text \<open>The registry entry pushed onto \<^verbatim>\<open>apiModules\<close> for a module that passed validation.\<close>

fun registry_entry :: "flavor \<Rightarrow> settings \<Rightarrow> jsval \<Rightarrow> string \<Rightarrow> string \<Rightarrow> jsval" where
  "registry_entry Api s meta routePath p =
     JObj [(''name'', get_prop meta ''name''),
           (''description'', js_or (get_prop meta ''description'') (JStr ''No description provided'')),
           (''category'', js_or (get_prop meta ''category'') (JStr ''Uncategorized'')),
           (''path'', JStr (routePath @ (if CHR ''?'' \<in> set p
                                          then ''?'' @ index_str (split_on CHR ''?'' p) 1 else []))),
           (''author'', js_or (get_prop meta ''author'') (JStr ''Unknown'')),
           (''method'', js_or (get_prop meta ''method'') (JStr ''GET'')),
           (''version'', js_or (get_prop meta ''version'') (JStr ''1.0.0'')),
           (''tags'', js_or (get_prop meta ''tags'') (JArr [])),
           (''deprecated'', js_or (get_prop meta ''deprecated'') (JBool False)),
           (''rateLimit'', js_or (get_prop meta ''rateLimit'') JNull)]"
| "registry_entry Ladybug s meta routePath p =
     JObj [(''name'', get_prop meta ''name''),
           (''description'', js_or (get_prop meta ''description'') (JStr ''No description provided'')),
           (''category'', js_or (get_prop meta ''category'') (JStr ''General'')),
           (''endpoint'', JStr (routePath @ (if CHR ''?'' \<in> set p
                                              then ''?'' @ index_str (split_on CHR ''?'' p) 1 else []))),
           (''author'', js_or (js_or (get_prop meta ''author'') (s_operator s)) (JStr ''AjiroDesu'')),
           (''method'', js_or (get_prop meta ''method'') (JStr ''GET'')),
           (''version'', js_or (get_prop meta ''version'') (JStr ''1.0.0'')),
           (''tags'', js_or (get_prop meta ''tags'') (JArr [])),
           (''deprecated'', js_or (get_prop meta ''deprecated'') (JBool False)),
           (''rateLimit'', js_or (get_prop meta ''rateLimit'') JNull),
           (''authentication'', js_or (get_prop meta ''authentication'') (JBool False)),
           (''ladybugFeature'', js_or (get_prop meta ''ladybugFeature'') (JBool False))]"

text \<open>
  The body of the \<^verbatim>\<open>try\<close> block after \<^verbatim>\<open>require\<close>: the validation sequence and the
  registration \<^verbatim>\<open>app[method](routePath, ...)\<close>.  Express compiles the path of a route when
  the route is registered and throws on a path it cannot compile; Express is not part of
  the repository, so \<open>rx\<close> stands for its compiler: the message of the error for a path
  it refuses, \<open>None\<close> for a path it accepts.  Every exception of this block is an Error
  object: \<open>Inl\<close> is its message, \<open>Inr\<close> the route registered and the registry entry to push.
  Nothing is stored before the registration has succeeded.
\<close>

definition validate ::
  "flavor \<Rightarrow> settings \<Rightarrow> (string \<Rightarrow> string option) \<Rightarrow> jsval \<Rightarrow> export \<Rightarrow> string + (route \<times> jsval)" where
  "validate flv s rx meta onStart =
     (if \<not> truthy meta \<or> js_typeof meta \<noteq> ''object'' then Inl (msg_no_meta flv)
      else (case onStart of
         Data v \<Rightarrow> Inl (msg_no_handler flv)
       | Func h \<Rightarrow>
           if \<not> truthy (get_prop meta (path_key flv)) \<or> \<not> truthy (get_prop meta ''name'')
           then Inl (msg_no_path_name flv)
           else (case get_prop meta (path_key flv) of
              JStr p \<Rightarrow>
                (let basePath = index_str (split_on CHR ''?'' p) 0;
                     routePath = prefix_of flv @ basePath
                 in case js_or (get_prop meta ''method'') (JStr ''get'') of
                      JStr m \<Rightarrow>
                        (let method = toLowerCase m
                         in if method \<notin> set validMethods
                            then Inl (''Invalid HTTP method: '' @ method)
                            else (case rx routePath of
                               Some refused \<Rightarrow> Inl refused
                             | None \<Rightarrow>
                                 Inr (\<lparr>r_method = method, r_path = routePath, r_handler = h,
                                       r_name = get_prop meta ''name''\<rparr>,
                                      registry_entry flv s meta routePath p)))
                    | _ \<Rightarrow> Inl (msg_lower_type flv))
            | _ \<Rightarrow> Inl (msg_split_type flv))))"

text \<open>The \<^verbatim>\<open>catch\<close> block once \<^verbatim>\<open>error.message\<close> has been read: it pushes a LoadError.\<close>

definition record_error :: "string \<Rightarrow> string \<Rightarrow> jsval \<Rightarrow> server \<Rightarrow> server" where
  "record_error filePath now m st =
     st\<lparr>loadErrors := loadErrors st @ [\<lparr>file' = filePath, error = m, timestamp = now\<rparr>]\<rparr>"

text \<open>
  One \<^verbatim>\<open>.js\<close> file: the \<^verbatim>\<open>try\<close> block registers the route, pushes the entry and counts it;
  the \<^verbatim>\<open>catch\<close> block reads \<^verbatim>\<open>error.message\<close> and pushes a LoadError.  When what was
  thrown is \<^verbatim>\<open>undefined\<close> or \<^verbatim>\<open>null\<close>, that read throws inside the \<^verbatim>\<open>catch\<close> block and the
  TypeError leaves \<^verbatim>\<open>loadModules\<close>: \<open>Inl\<close> is the message of an exception nothing catches.
\<close>

definition load_file ::
  "flavor \<Rightarrow> settings \<Rightarrow> (string \<Rightarrow> string option) \<Rightarrow> string \<times> required \<times> string
     \<Rightarrow> server \<Rightarrow> string + server" where
  "load_file flv s rx f st =
     (case f of (filePath, r, now) \<Rightarrow>
        (case r of
           RequireThrows x \<Rightarrow>
             (case message_of x of
                Inl uncaught \<Rightarrow> Inl uncaught
              | Inr m \<Rightarrow> Inr (record_error filePath now m st))
         | Exports meta onStart \<Rightarrow>
             (case validate flv s rx meta onStart of
                Inr (rt, entry) \<Rightarrow>
                  Inr (st\<lparr>routes := routes st @ [rt],
                          apiModules := apiModules st @ [entry],
                          totalRoutes := totalRoutes st + 1\<rparr>)
              | Inl msg \<Rightarrow> Inr (record_error filePath now (JStr msg) st))))"

text \<open>
  \<^verbatim>\<open>loadModules(dir)\<close>: nothing for a folder that does not exist; otherwise \<^verbatim>\<open>readdirSync\<close>
  and a \<^verbatim>\<open>forEach\<close> over the listing, which takes \<^verbatim>\<open>statSync\<close> of each entry, recurses into
  a directory where it stands, loads a regular file whose extension is \<^verbatim>\<open>.js\<close> and passes
  over everything else.  \<^verbatim>\<open>readdirSync\<close> and \<^verbatim>\<open>statSync\<close> stand outside the \<^verbatim>\<open>try\<close> block:
  what they throw ends the \<^verbatim>\<open>forEach\<close> and leaves \<^verbatim>\<open>loadModules\<close>.
\<close>

fun loadModules ::
  "flavor \<Rightarrow> settings \<Rightarrow> (string \<Rightarrow> string option) \<Rightarrow> string \<Rightarrow> folder \<Rightarrow> server \<Rightarrow> string + server"
and forEach ::
  "flavor \<Rightarrow> settings \<Rightarrow> (string \<Rightarrow> string option) \<Rightarrow> string \<Rightarrow> dirent list \<Rightarrow> server \<Rightarrow> string + server"
and load_entry ::
  "flavor \<Rightarrow> settings \<Rightarrow> (string \<Rightarrow> string option) \<Rightarrow> string \<Rightarrow> dirent \<Rightarrow> server \<Rightarrow> string + server"
where
  "loadModules flv s rx dir Absent st = Inr st"
| "loadModules flv s rx dir (Unlistable uncaught) st = Inl uncaught"
| "loadModules flv s rx dir (Listing entries) st = forEach flv s rx dir entries st"
| "forEach flv s rx dir [] st = Inr st"
| "forEach flv s rx dir (e # entries) st =
     (case load_entry flv s rx dir e st of
        Inl uncaught \<Rightarrow> Inl uncaught
      | Inr st' \<Rightarrow> forEach flv s rx dir entries st')"
| "load_entry flv s rx dir (Dangling name uncaught) st = Inl uncaught"
| "load_entry flv s rx dir (Directory name sub) st =
     loadModules flv s rx (path_join dir name) sub st"
| "load_entry flv s rx dir (RegularFile name r now) st =
     (if path_extname name = ''.js''
      then load_file flv s rx (path_join dir name, r, now) st
      else Inr st)"
| "load_entry flv s rx dir (Special name) st = Inr st"

text \<open>
  What a scan meets, in the order it meets it: the \<^verbatim>\<open>.js\<close> files, each with its full path,
  and the places where \<^verbatim>\<open>readdirSync\<close> or \<^verbatim>\<open>statSync\<close> throws.
\<close>

datatype item = FileItem "string \<times> required \<times> string" | AbortItem string

fun scan_items :: "string \<Rightarrow> folder \<Rightarrow> item list"
and entries_items :: "string \<Rightarrow> dirent list \<Rightarrow> item list"
and entry_items :: "string \<Rightarrow> dirent \<Rightarrow> item list"
where
  "scan_items dir Absent = []"
| "scan_items dir (Unlistable uncaught) = [AbortItem uncaught]"
| "scan_items dir (Listing entries) = entries_items dir entries"
| "entries_items dir [] = []"
| "entries_items dir (e # entries) = entry_items dir e @ entries_items dir entries"
| "entry_items dir (Dangling name uncaught) = [AbortItem uncaught]"
| "entry_items dir (Directory name sub) = scan_items (path_join dir name) sub"
| "entry_items dir (RegularFile name r now) =
     (if path_extname name = ''.js'' then [FileItem (path_join dir name, r, now)] else [])"
| "entry_items dir (Special name) = []"

text \<open>The loader on such a list: one item after the other, until one of them throws.\<close>

fun load_item ::
  "flavor \<Rightarrow> settings \<Rightarrow> (string \<Rightarrow> string option) \<Rightarrow> item \<Rightarrow> server \<Rightarrow> string + server" where
  "load_item flv s rx (FileItem f) st = load_file flv s rx f st"
| "load_item flv s rx (AbortItem uncaught) st = Inl uncaught"

fun run_items ::
  "flavor \<Rightarrow> settings \<Rightarrow> (string \<Rightarrow> string option) \<Rightarrow> item list \<Rightarrow> server \<Rightarrow> string + server" where
  "run_items flv s rx [] st = Inr st"
| "run_items flv s rx (i # rest) st =
     (case load_item flv s rx i st of
        Inl uncaught \<Rightarrow> Inl uncaught
      | Inr st' \<Rightarrow> run_items flv s rx rest st')"

text \<open>
  What a list of items adds to the error list and to the routes and the registry, and the
  first exception in it that nothing catches.
\<close>

fun item_error :: "flavor \<Rightarrow> settings \<Rightarrow> (string \<Rightarrow> string option) \<Rightarrow> item \<Rightarrow> LoadError list" where
  "item_error flv s rx (FileItem (filePath, RequireThrows x, now)) =
     (case message_of x of
        Inl uncaught \<Rightarrow> []
      | Inr m \<Rightarrow> [\<lparr>file' = filePath, error = m, timestamp = now\<rparr>])"
| "item_error flv s rx (FileItem (filePath, Exports meta onStart, now)) =
     (case validate flv s rx meta onStart of
        Inl msg \<Rightarrow> [\<lparr>file' = filePath, error = JStr msg, timestamp = now\<rparr>]
      | Inr x \<Rightarrow> [])"
| "item_error flv s rx (AbortItem uncaught) = []"

fun item_loaded :: "flavor \<Rightarrow> settings \<Rightarrow> (string \<Rightarrow> string option) \<Rightarrow> item \<Rightarrow> (route \<times> jsval) list" where
  "item_loaded flv s rx (FileItem (filePath, Exports meta onStart, now)) =
     (case validate flv s rx meta onStart of Inl msg \<Rightarrow> [] | Inr x \<Rightarrow> [x])"
| "item_loaded flv s rx i = []"

fun item_abort :: "item \<Rightarrow> string option" where
  "item_abort (FileItem (filePath, RequireThrows x, now)) =
     (case message_of x of Inl uncaught \<Rightarrow> Some uncaught | Inr m \<Rightarrow> None)"
| "item_abort (FileItem (filePath, Exports meta onStart, now)) = None"
| "item_abort (AbortItem uncaught) = Some uncaught"

definition errors_of ::
  "flavor \<Rightarrow> settings \<Rightarrow> (string \<Rightarrow> string option) \<Rightarrow> item list \<Rightarrow> LoadError list" where
  "errors_of flv s rx items = concat (map (item_error flv s rx) items)"

definition loaded_of ::
  "flavor \<Rightarrow> settings \<Rightarrow> (string \<Rightarrow> string option) \<Rightarrow> item list \<Rightarrow> (route \<times> jsval) list" where
  "loaded_of flv s rx items = concat (map (item_loaded flv s rx) items)"

fun first_abort :: "item list \<Rightarrow> string option" where
  "first_abort [] = None"
| "first_abort (i # rest) =
     (case item_abort i of Some uncaught \<Rightarrow> Some uncaught | None \<Rightarrow> first_abort rest)"

section \<open>Responses\<close>

text \<open>
  What the client has been sent: a JSON body (the value handed to Express's own
  \<^verbatim>\<open>res.json\<close>) or a file of the \<^verbatim>\<open>web\<close> folder.
\<close>

datatype body = Json jsval | File string

record response =
  headersSent :: bool
  statusCode :: nat
  sent :: "body option"

definition fresh :: response where
  "fresh = \<lparr>headersSent = False, statusCode = 200, sent = None\<rparr>"

text \<open>
  \<^verbatim>\<open>res.status(code).json(data)\<close> and \<^verbatim>\<open>res.status(code).sendFile(f)\<close> on a response whose
  headers are not yet sent; the JSON goes through the envelope.
\<close>

definition send_json :: "flavor \<Rightarrow> settings \<Rightarrow> string \<Rightarrow> nat \<Rightarrow> jsval \<Rightarrow> response" where
  "send_json flv s now code data =
     \<lparr>headersSent = True, statusCode = code, sent = Some (Json (res_json flv s now data))\<rparr>"

definition send_file :: "nat \<Rightarrow> string \<Rightarrow> response" where
  "send_file code f = \<lparr>headersSent = True, statusCode = code, sent = Some (File f)\<rparr>"

section \<open>The route dispatch wrapper\<close>

text \<open>
  One request in the hands of the wrapper registered by \<^verbatim>\<open>app[method](routePath, ...)\<close>:
  the response, the deadline of the armed timeout (\<open>None\<close> once it has fired or has been
  cleared), the time in milliseconds, whether the handler's promise is still pending,
  what \<^verbatim>\<open>console.error\<close> has printed (the module's name and \<^verbatim>\<open>error.message\<close>), and the
  messages of the exceptions that left the wrapper: the wrapper is an \<^verbatim>\<open>async\<close> function
  and Express 4 does not look at the promise a route handler returns, so these are
  unhandled rejections and nothing answers the request on their account.  (What the
  runtime makes of an unhandled rejection, up to ending the process, is not modelled.)
\<close>

record pending =
  res :: response
  timer :: "nat option"
  clock :: nat
  running :: bool
  console :: "(jsval \<times> jsval) list"
  unhandled :: "string list"

text \<open>
  What happens to a request after the wrapper has called the handler: time passes (the
  string is what \<^verbatim>\<open>toISOString\<close> gives then), the handler answers through
  \<^verbatim>\<open>res.status(code).json(data)\<close>, its promise resolves, or it throws or rejects with
  some value.
\<close>

datatype event =
    Elapse nat string
  | HandlerSends nat jsval string
  | HandlerResolves
  | HandlerRejects thrown string

fun timeout_body :: "flavor \<Rightarrow> jsval" where
  "timeout_body Api =
     JObj [(''status'', JStr ''error''), (''message'', JStr ''Request timeout''),
           (''code'', JStr ''TIMEOUT'')]"
| "timeout_body Ladybug =
     JObj [(''status'', JStr ''error''),
           (''message'', JStr ''Request timeout - Ladybug took too long to respond''),
           (''code'', JStr ''LADYBUG_TIMEOUT''),
           (''ladybug'', JStr (ladybug_mark @ '' Timeout!''))]"

fun handler_error_body :: "flavor \<Rightarrow> jsval" where
  "handler_error_body Api =
     JObj [(''status'', JStr ''error''), (''message'', JStr ''Internal server error''),
           (''code'', JStr ''INTERNAL_ERROR'')]"
| "handler_error_body Ladybug =
     JObj [(''status'', JStr ''error''), (''message'', JStr ''Internal Ladybug error''),
           (''code'', JStr ''LADYBUG_ERROR''),
           (''ladybug'', JStr (ladybug_mark @ '' Oops! Bug detected!''))]"

text \<open>
  The wrapper up to the call of the handler: \<^verbatim>\<open>setTimeout(..., 30000)\<close> arms the timeout,
  then the handler is started on the request's response.
\<close>

definition start :: "nat \<Rightarrow> response \<Rightarrow> pending" where
  "start t r = \<lparr>res = r, timer = Some (t + 30000), clock = t, running = True,
               console = [], unhandled = []\<rparr>"

text \<open>The timeout's callback.\<close>

definition on_timeout :: "flavor \<Rightarrow> settings \<Rightarrow> string \<Rightarrow> pending \<Rightarrow> pending" where
  "on_timeout flv s now p =
     (if headersSent (res p) then p
      else p\<lparr>res := send_json flv s now 408 (timeout_body flv)\<rparr>)"

text \<open>
  One event of a request to the route \<open>rt\<close>.  The timeout's callback runs when the time
  reaches its deadline while it is armed.  A handler that answers after the headers went out gets an exception from
  Express; the client keeps the first response.  After \<^verbatim>\<open>await\<close> returns, the wrapper calls
  \<^verbatim>\<open>clearTimeout\<close>; the \<^verbatim>\<open>catch\<close> block reads \<^verbatim>\<open>error.message\<close>, prints it with the module's
  name, answers 500 if nothing has been sent, and does not touch the timeout.  When the
  handler threw \<^verbatim>\<open>undefined\<close> or \<^verbatim>\<open>null\<close>, that read throws inside the \<^verbatim>\<open>catch\<close> block: nothing
  is printed or sent, and the TypeError leaves the wrapper.
\<close>

fun step :: "flavor \<Rightarrow> settings \<Rightarrow> route \<Rightarrow> event \<Rightarrow> pending \<Rightarrow> pending" where
  "step flv s rt (Elapse t now) p =
     (let p' = p\<lparr>clock := max (clock p) t\<rparr>
      in case timer p of
           None \<Rightarrow> p'
         | Some d \<Rightarrow> if d \<le> t then on_timeout flv s now (p'\<lparr>timer := None\<rparr>) else p')"
| "step flv s rt (HandlerSends code data now) p =
     (if headersSent (res p) then p else p\<lparr>res := send_json flv s now code data\<rparr>)"
| "step flv s rt HandlerResolves p =
     (if running p then p\<lparr>timer := None, running := False\<rparr> else p)"
| "step flv s rt (HandlerRejects x now) p =
     (if running p
      then (case message_of x of
              Inl uncaught \<Rightarrow> p\<lparr>running := False, unhandled := unhandled p @ [uncaught]\<rparr>
            | Inr m \<Rightarrow>
                (let p' = p\<lparr>running := False, console := console p @ [(r_name rt, m)]\<rparr>
                 in if headersSent (res p') then p'
                    else p'\<lparr>res := send_json flv s now 500 (handler_error_body flv)\<rparr>))
      else p)"

definition run :: "flavor \<Rightarrow> settings \<Rightarrow> route \<Rightarrow> event list \<Rightarrow> pending \<Rightarrow> pending" where
  "run flv s rt evs p = fold (step flv s rt) evs p"

section \<open>The fallback handlers\<close>

record request =
  req_method :: string
  req_url :: string

text \<open>\<^verbatim>\<open>s.startsWith(pre)\<close>.\<close>

definition startsWith :: "string \<Rightarrow> string \<Rightarrow> bool" where
  "startsWith s pre = (take (length pre) s = pre)"

fun not_found_body :: "flavor \<Rightarrow> jsval" where
  "not_found_body Api =
     JObj [(''status'', JStr ''error''), (''message'', JStr ''API endpoint not found''),
           (''code'', JStr ''NOT_FOUND''),
           (''suggestion'', JStr ''Visit /api/info for available endpoints'')]"
| "not_found_body Ladybug =
     JObj [(''status'', JStr ''error''), (''message'', JStr ''Ladybug endpoint not found''),
           (''code'', JStr ''LADYBUG_NOT_FOUND''),
           (''suggestion'', JStr ''Visit /ladybug/docs for available endpoints''),
           (''ladybug'', JStr (ladybug_mark @ '' This endpoint seems to have flown away!''))]"

fun server_error_body :: "flavor \<Rightarrow> jsval" where
  "server_error_body Api =
     JObj [(''status'', JStr ''error''), (''message'', JStr ''Internal server error''),
           (''code'', JStr ''INTERNAL_ERROR'')]"
| "server_error_body Ladybug =
     JObj [(''status'', JStr ''error''), (''message'', JStr ''Internal Ladybug error''),
           (''code'', JStr ''LADYBUG_INTERNAL_ERROR''),
           (''ladybug'', JStr (ladybug_mark @ '' Oops! A bug in the system!''))]"

fun page_404 :: "flavor \<Rightarrow> string" where
  "page_404 Api = ''web/404.html''"
| "page_404 Ladybug = ''web/ladybug-404.html''"

fun page_500 :: "flavor \<Rightarrow> string" where
  "page_500 Api = ''web/500.html''"
| "page_500 Ladybug = ''web/ladybug-500.html''"

text \<open>The last \<^verbatim>\<open>app.use((req, res) => ...)\<close>: the answer to a request nothing else took.\<close>

definition not_found :: "flavor \<Rightarrow> settings \<Rightarrow> string \<Rightarrow> request \<Rightarrow> response" where
  "not_found flv s now req =
     (if startsWith (req_url req) (prefix_of flv @ ''/'')
      then send_json flv s now 404 (not_found_body flv)
      else send_file 404 (page_404 flv))"

text \<open>\<^verbatim>\<open>res.status(code).json(data)\<close> on a response whose \<^verbatim>\<open>json\<close> is still Express's own.\<close>

definition send_plain :: "nat \<Rightarrow> jsval \<Rightarrow> response" where
  "send_plain code data = \<lparr>headersSent = True, statusCode = code, sent = Some (Json data)\<rparr>"

text \<open>
  The error-handling middleware \<^verbatim>\<open>app.use((err, req, res, next) => ...)\<close>.  It is reached
  from wherever an error was passed on: \<open>enveloped\<close> tells whether the request had come
  past the envelope middleware by then.  An error of the body parsers or of \<^verbatim>\<open>cors\<close>, which
  stand before it, is answered through Express's own \<^verbatim>\<open>res.json\<close>.
\<close>

definition server_error :: "flavor \<Rightarrow> settings \<Rightarrow> string \<Rightarrow> bool \<Rightarrow> request \<Rightarrow> response" where
  "server_error flv s now enveloped req =
     (if startsWith (req_url req) (prefix_of flv @ ''/'')
      then (if enveloped then send_json flv s now 500 (server_error_body flv)
            else send_plain 500 (server_error_body flv))
      else send_file 500 (page_500 flv))"


section \<open>The introspection endpoints\<close>

text \<open>ToString, as a computed property key \<^verbatim>\<open>obj[v]\<close> applies it.\<close>

fun join :: "string \<Rightarrow> string list \<Rightarrow> string" where
  "join sep [] = []"
| "join sep [w] = w"
| "join sep (w # ws) = w @ sep @ join sep ws"

fun to_string :: "jsval \<Rightarrow> string" where
  "to_string JUndefined = ''undefined''"
| "to_string JNull = ''null''"
| "to_string (JBool b) = (if b then ''true'' else ''false'')"
| "to_string (JNum n) = show_int n"
| "to_string (JStr s) = s"
| "to_string (JArr xs) =
     join '','' (map (\<lambda>x. if x = JUndefined \<or> x = JNull then [] else to_string x) xs)"
| "to_string (JObj kvs) = ''[object Object]''"

text \<open>
  The properties every object literal inherits from \<^verbatim>\<open>Object.prototype\<close>: reading one of
  these keys on \<^verbatim>\<open>{}\<close> gives a function (an object for \<^verbatim>\<open>__proto__\<close>), which is truthy and
  has no \<^verbatim>\<open>items\<close>.
\<close>

definition object_prototype_keys :: "string list" where
  "object_prototype_keys =
     [''constructor'', ''__defineGetter__'', ''__defineSetter__'', ''hasOwnProperty'',
      ''__lookupGetter__'', ''__lookupSetter__'', ''isPrototypeOf'', ''propertyIsEnumerable'',
      ''toString'', ''valueOf'', ''__proto__'', ''toLocaleString'']"

text \<open>What the process reports: \<^verbatim>\<open>process.uptime()\<close>, \<^verbatim>\<open>process.memoryUsage()\<close>, \<^verbatim>\<open>process.version\<close>.\<close>

record process =
  uptime :: jsval
  memoryUsage :: jsval
  nodeVersion :: string

text \<open>The message of the TypeError raised by \<^verbatim>\<open>undefined.push(...)\<close>.\<close>

definition msg_push_undefined :: string where
  "msg_push_undefined =
     ''Cannot read properties of undefined (reading '' @ [CHR 0x27] @ ''push'' @ [CHR 0x27] @ '')''"

text \<open>The item \<^verbatim>\<open>/api/info\<close> lists for a registry entry.\<close>

definition info_item :: "jsval \<Rightarrow> jsval" where
  "info_item m =
     JObj [(''name'', get_prop m ''name''),
           (''desc'', get_prop m ''description''),
           (''path'', get_prop m ''path''),
           (''author'', get_prop m ''author''),
           (''method'', get_prop m ''method''),
           (''version'', get_prop m ''version''),
           (''tags'', get_prop m ''tags''),
           (''deprecated'', get_prop m ''deprecated''),
           (''rateLimit'', get_prop m ''rateLimit'')]"

text \<open>\<^verbatim>\<open>v + 1\<close> for the counters, which hold numbers.\<close>

fun plus_one :: "jsval \<Rightarrow> jsval" where
  "plus_one (JNum n) = JNum (n + 1)"
| "plus_one v = JStr (to_string v @ ''1'')"

fun push :: "jsval \<Rightarrow> jsval \<Rightarrow> jsval" where
  "push (JArr xs) x = JArr (xs @ [x])"
| "push v x = v"

text \<open>
  One round of the \<^verbatim>\<open>forEach\<close> of \<^verbatim>\<open>/api/info\<close> over the registry.  \<open>cats\<close> holds the own
  properties of the local object \<^verbatim>\<open>categories\<close>, which starts as \<^verbatim>\<open>{}\<close>; \<open>n\<close> is
  \<^verbatim>\<open>totalEndpoints\<close>.  The test \<^verbatim>\<open>!categories[module.category]\<close> sees own and inherited
  properties alike: under an inherited key no group is created, and
  \<^verbatim>\<open>categories[key].items.push\<close> throws.
\<close>

definition info_step ::
  "jsval \<Rightarrow> (string \<times> jsval) list \<times> int \<Rightarrow> string + ((string \<times> jsval) list \<times> int)" where
  "info_step m acc =
     (case acc of (cats, n) \<Rightarrow>
        (let category = get_prop m ''category'';
             key = to_string category;
             created =
               (if map_of cats key = None \<and> key \<notin> set object_prototype_keys
                then set_prop key (JObj [(''name'', category), (''count'', JNum 0), (''items'', JArr [])]) cats
                else cats)
         in case map_of created key of
              None \<Rightarrow> Inl msg_push_undefined
            | Some g \<Rightarrow>
                (let g1 = set_prop ''items'' (push (get_prop g ''items'') (info_item m)) (own_props g);
                     g2 = set_prop ''count'' (plus_one (get_prop (JObj g1) ''count'')) g1
                 in Inr (set_prop key (JObj g2) created, n + 1))))"

fun info_loop ::
  "jsval list \<Rightarrow> (string \<times> jsval) list \<times> int \<Rightarrow> string + ((string \<times> jsval) list \<times> int)" where
  "info_loop [] acc = Inr acc"
| "info_loop (m # ms) acc =
     (case info_step m acc of Inl e \<Rightarrow> Inl e | Inr acc' \<Rightarrow> info_loop ms acc')"

text \<open>The body \<^verbatim>\<open>/api/info\<close> passes to \<^verbatim>\<open>res.json\<close>, or the message of the exception it throws.\<close>

definition info_body :: "process \<Rightarrow> server \<Rightarrow> string + jsval" where
  "info_body pr st =
     (case info_loop (apiModules st) ([], 0) of
        Inl e \<Rightarrow> Inl e
      | Inr (cats, n) \<Rightarrow>
          Inr (JObj [(''categories'', JArr (map snd cats)),
                     (''summary'',
                      JObj [(''totalEndpoints'', JNum n),
                            (''totalCategories'', JNum (int (length cats))),
                            (''loadErrors'', JNum (int (length (loadErrors st)))),
                            (''serverUptime'', uptime pr)])]))"

text \<open>
  SameValueZero, by which a \<^verbatim>\<open>Set\<close> tells its elements apart: primitive values by value,
  arrays and objects by identity; each registry entry holds its own module's object.
\<close>

fun same_value :: "jsval \<Rightarrow> jsval \<Rightarrow> bool" where
  "same_value (JArr xs) w = False"
| "same_value (JObj kvs) w = False"
| "same_value v w = (v = w)"

definition set_add :: "jsval \<Rightarrow> jsval list \<Rightarrow> jsval list" where
  "set_add v seen = (if list_ex (same_value v) seen then seen else seen @ [v])"

text \<open>\<^verbatim>\<open>[...new Set(apiModules.map(m => m.category))]\<close>.\<close>

definition category_set :: "jsval list \<Rightarrow> jsval list" where
  "category_set ms = fold set_add (map (\<lambda>m. get_prop m ''category'') ms) []"

text \<open>
  The histogram \<^verbatim>\<open>apiModules.reduce(...)\<close> builds in \<^verbatim>\<open>/api/stats\<close>.  Its keys are the
  methods stored in the registry, which lower-case to one of \<open>validMethods\<close>; none of them
  is a key of \<^verbatim>\<open>Object.prototype\<close>, so only own properties are ever found.
\<close>

definition count_method :: "jsval \<Rightarrow> (string \<times> jsval) list \<Rightarrow> (string \<times> jsval) list" where
  "count_method m acc =
     (let key = to_string (get_prop m ''method'')
      in set_prop key (plus_one (js_or (get_prop (JObj acc) key) (JNum 0))) acc)"

definition stats_body :: "process \<Rightarrow> server \<Rightarrow> jsval" where
  "stats_body pr st =
     JObj [(''totalRoutes'', JNum (int (totalRoutes st))),
           (''loadErrors'', JNum (int (length (loadErrors st)))),
           (''categories'', JNum (int (length (category_set (apiModules st))))),
           (''methods'', JObj (fold count_method (apiModules st) [])),
           (''uptime'', uptime pr),
           (''nodeVersion'', JStr (nodeVersion pr))]"

text \<open>
  \<open>tnow\<close> is the timestamp the handler of \<^verbatim>\<open>/api/health\<close> takes itself, before the envelope
  takes its own.
\<close>

definition health_body :: "settings \<Rightarrow> process \<Rightarrow> string \<Rightarrow> jsval" where
  "health_body s pr tnow =
     JObj [(''status'', JStr ''healthy''),
           (''uptime'', uptime pr),
           (''memory'', memoryUsage pr),
           (''timestamp'', JStr tnow),
           (''version'', js_or (s_version s) (JStr ''1.0.0''))]"

text \<open>
  The three handlers of the \<^verbatim>\<open>/api\<close> deployment, each giving its response and the
  module-level state it leaves behind.  An exception thrown in a handler reaches the
  error-handling middleware, on a request that has come past the envelope middleware.
\<close>

definition api_info ::
  "settings \<Rightarrow> process \<Rightarrow> string \<Rightarrow> request \<Rightarrow> server \<Rightarrow> response \<times> server" where
  "api_info s pr now req st =
     (case info_body pr st of
        Inr b \<Rightarrow> (send_json Api s now 200 b, st)
      | Inl e \<Rightarrow> (server_error Api s now True req, st))"

definition api_health ::
  "settings \<Rightarrow> process \<Rightarrow> string \<Rightarrow> string \<Rightarrow> server \<Rightarrow> response \<times> server" where
  "api_health s pr tnow now st = (send_json Api s now 200 (health_body s pr tnow), st)"

definition api_stats ::
  "settings \<Rightarrow> process \<Rightarrow> string \<Rightarrow> server \<Rightarrow> response \<times> server" where
  "api_stats s pr now st = (send_json Api s now 200 (stats_body pr st), st)"

section \<open>The modules of the repository and notions for the properties\<close>

text \<open>The two route modules the repository ships, \<^verbatim>\<open>api/example/hello.js\<close> and \<^verbatim>\<open>goodbye.js\<close>.\<close>

definition hello :: required where
  "hello = Exports (JObj [(''name'', JStr ''Hello API''),
                          (''path'', JStr ''/example/hello''),
                          (''description'', JStr ''A simple hello API endpoint''),
                          (''method'', JStr ''GET''),
                          (''category'', JStr ''Example''),
                          (''author'', JStr ''Mr Ntando Ofc'')]) (Func 0)"

definition goodbye :: required where
  "goodbye = Exports (JObj [(''name'', JStr ''Goodbye API''),
                            (''path'', JStr ''/example/goodbye''),
                            (''description'', JStr ''A simple goodbye API endpoint''),
                            (''method'', JStr ''GET''),
                            (''category'', JStr ''Example''),
                            (''author'', JStr ''Mr Ntando ofc'')]) (Func 1)"

text \<open>The state a list of items leaves when none of them throws past the loader.\<close>

definition after_items ::
  "flavor \<Rightarrow> settings \<Rightarrow> (string \<Rightarrow> string option) \<Rightarrow> item list \<Rightarrow> server \<Rightarrow> server" where
  "after_items flv s rx items st =
     st\<lparr>routes := routes st @ map fst (loaded_of flv s rx items),
        apiModules := apiModules st @ map snd (loaded_of flv s rx items),
        totalRoutes := totalRoutes st + length (loaded_of flv s rx items),
        loadErrors := loadErrors st @ errors_of flv s rx items\<rparr>"

text \<open>An Express that accepts every path.\<close>

definition any_path :: "string \<Rightarrow> string option" where
  "any_path p = None"

text \<open>The settings of a server whose \<^verbatim>\<open>settings.json\<close> sets neither operator nor version.\<close>

definition no_settings :: settings where
  "no_settings = \<lparr>s_operator = JUndefined, s_version = JUndefined\<rparr>"

text \<open>
  A module declares a method the loader does not know: the \<^verbatim>\<open>method\<close> of its metadata is
  truthy (a falsy one counts as absent and defaults to \<^verbatim>\<open>get\<close>) and is not a string that
  lower-cases to one of \<open>validMethods\<close>.
\<close>

definition unknown_method :: "jsval \<Rightarrow> bool" where
  "unknown_method meta =
     (case get_prop meta ''method'' of
        JStr m \<Rightarrow> m \<noteq> [] \<and> toLowerCase m \<notin> set validMethods
      | v \<Rightarrow> truthy v)"

text \<open>What of a pending request the client and the event loop can see: all but the console.\<close>

definition visible :: "pending \<Rightarrow> response \<times> nat option \<times> nat \<times> bool" where
  "visible p = (res p, timer p, clock p, running p)"



text \<open>The values a \<^verbatim>\<open>Set\<close> compares by value.\<close>

fun primitive :: "jsval \<Rightarrow> bool" where
  "primitive (JArr xs) = False"
| "primitive (JObj kvs) = False"
| "primitive v = True"

section \<open>Properties of the envelope\<close>


lemma keys_set_prop:
  "map fst (set_prop k v ps) = (if k \<in> fst ` set ps then map fst ps else map fst ps @ [k])"
  by (induction ps) auto

lemma distinct_set_prop: "distinct (map fst ps) \<Longrightarrow> distinct (map fst (set_prop k v ps))"
  by (simp add: keys_set_prop)









lemma res_json_passthrough:
  "\<not> truthy data \<or> js_typeof data \<noteq> ''object'' \<Longrightarrow> res_json flv s now data = data"
  by (auto simp: res_json_def)

text \<open>
  C2.  A JSON body that is not a key-value object should reach the client as the handler
  emitted it.  \<open>res_json_passthrough\<close> shows this for primitives and \<^verbatim>\<open>null\<close>.  An array is
  truthy and its \<^verbatim>\<open>typeof\<close> is \<^verbatim>\<open>'object'\<close>, so it takes the envelope branch: the array
  \<^verbatim>\<open>[1, 2]\<close> leaves as an object with the envelope fields and the keys \<^verbatim>\<open>"0"\<close> and \<^verbatim>\<open>"1"\<close>.
\<close>

theorem array_body_is_enveloped:
  "res_json Api no_settings now (JArr [JNum 1, JNum 2])
     = JObj [(''status'', JStr ''success''), (''operator'', JStr ''Ladybug APIs''),
             (''timestamp'', JStr now), (''version'', JStr ''1.0.0''),
             (''0'', JNum 1), (''1'', JNum 2)]
   \<and> res_json Api no_settings now (JArr [JNum 1, JNum 2]) \<noteq> JArr [JNum 1, JNum 2]"
  by (simp add: res_json_def spread_def get_prop_def js_or_def no_settings_def digit_char_def
      upt_rec)

section \<open>Properties of the loader\<close>

lemma run_items_append:
  "run_items flv s rx (xs @ ys) st =
     (case run_items flv s rx xs st of Inl e \<Rightarrow> Inl e | Inr st' \<Rightarrow> run_items flv s rx ys st')"
  by (induction xs arbitrary: st) (simp_all split: sum.splits)

lemma loadModules_items:
  "loadModules flv s rx dir f st = run_items flv s rx (scan_items dir f) st"
  "forEach flv s rx dir es st = run_items flv s rx (entries_items dir es) st"
  "load_entry flv s rx dir e st = run_items flv s rx (entry_items dir e) st"
proof (induction flv s rx dir f st and flv s rx dir es st and flv s rx dir e st
    rule: loadModules_forEach_load_entry.induct)
  case (5 flv s rx dir e entries st)
  then show ?case
    by (auto simp: run_items_append split: sum.splits)
next
  case (8 flv s rx dir name r now st)
  then show ?case by (simp split: sum.splits)
qed simp_all

lemma errors_of_append:
  "errors_of flv s rx (xs @ ys) = errors_of flv s rx xs @ errors_of flv s rx ys"
  by (simp add: errors_of_def)

lemma loaded_of_append:
  "loaded_of flv s rx (xs @ ys) = loaded_of flv s rx xs @ loaded_of flv s rx ys"
  by (simp add: loaded_of_def)

lemma errors_of_Cons: "errors_of flv s rx (i # rest) = item_error flv s rx i @ errors_of flv s rx rest"
  by (simp add: errors_of_def)

lemma loaded_of_Cons: "loaded_of flv s rx (i # rest) = item_loaded flv s rx i @ loaded_of flv s rx rest"
  by (simp add: loaded_of_def)

lemma load_item_closed:
  "load_item flv s rx i st =
     (case item_abort i of
        Some uncaught \<Rightarrow> Inl uncaught
      | None \<Rightarrow> Inr (after_items flv s rx [i] st))"
proof (cases i)
  case (FileItem f)
  obtain p r t where f: "f = (p, r, t)" by (cases f)
  show ?thesis
  proof (cases r)
    case (RequireThrows x)
    show ?thesis unfolding FileItem f RequireThrows
      by (cases "message_of x")
         (simp_all add: load_file_def after_items_def loaded_of_def errors_of_def record_error_def)
  next
    case (Exports meta onStart)
    show ?thesis unfolding FileItem f Exports
      by (cases "validate flv s rx meta onStart")
         (auto simp: load_file_def after_items_def loaded_of_def errors_of_def record_error_def)
  qed
next
  case (AbortItem uncaught)
  then show ?thesis by simp
qed

lemma after_items_Cons:
  "after_items flv s rx rest (after_items flv s rx [i] st) = after_items flv s rx (i # rest) st"
  by (simp add: after_items_def loaded_of_Cons errors_of_Cons loaded_of_def errors_of_def)

lemma run_items_closed:
  "run_items flv s rx items st =
     (case first_abort items of
        Some uncaught \<Rightarrow> Inl uncaught
      | None \<Rightarrow> Inr (after_items flv s rx items st))"
proof (induction items arbitrary: st)
  case Nil
  then show ?case by (simp add: after_items_def loaded_of_def errors_of_def)
next
  case (Cons i rest)
  show ?case
  proof (cases "item_abort i")
    case None
    then have "run_items flv s rx (i # rest) st
        = run_items flv s rx rest (after_items flv s rx [i] st)"
      by (simp add: load_item_closed)
    also have "\<dots> = (case first_abort rest of
        Some uncaught \<Rightarrow> Inl uncaught
      | None \<Rightarrow> Inr (after_items flv s rx rest (after_items flv s rx [i] st)))"
      by (rule Cons.IH)
    finally show ?thesis using None by (simp add: after_items_Cons split: option.splits)
  next
    case (Some uncaught)
    then show ?thesis by (simp add: load_item_closed)
  qed
qed

lemma first_abort_append:
  "first_abort (xs @ ys) = (case first_abort xs of Some e \<Rightarrow> Some e | None \<Rightarrow> first_abort ys)"
  by (induction xs) (simp_all split: option.splits)

lemmas eval_defs = validate_def load_file_def record_error_def path_join_def
  path_extname_def hello_def goodbye_def get_prop_def js_or_def toLowerCase_def lower_char_def
  validMethods_def index_str_def initial_def no_settings_def any_path_def Let_def

lemma validate_rejects:
  assumes "get_prop meta ''name'' = JUndefined \<or> get_prop meta (path_key flv) = JUndefined
           \<or> unknown_method meta"
  shows "\<exists>msg. validate flv s rx meta h = Inl msg"
proof (cases "validate flv s rx meta h")
  case (Inl msg)
  then show ?thesis by blast
next
  case (Inr x)
  then have ok: "truthy (get_prop meta (path_key flv))" "truthy (get_prop meta ''name'')"
    by (auto simp: validate_def split: if_splits export.splits)
  from Inr have "\<exists>m. js_or (get_prop meta ''method'') (JStr ''get'') = JStr m
      \<and> toLowerCase m \<in> set validMethods"
    by (auto simp: validate_def Let_def split: if_splits export.splits jsval.splits option.splits)
  then have "\<not> unknown_method meta"
    by (auto simp: unknown_method_def js_or_def split: jsval.splits if_splits)
  with ok assms show ?thesis by auto
qed

lemma loaded_member:
  "FileItem (q, Exports meta' h', u) \<in> set items \<Longrightarrow> validate flv s rx meta' h' = Inr x \<Longrightarrow>
   x \<in> set (loaded_of flv s rx items)"
  by (induction items) (auto simp: loaded_of_def)

text \<open>
  C3 (amended).  Take a scan and one of the \<^verbatim>\<open>.js\<close> files it meets, whose module lacks
  \<^verbatim>\<open>name\<close>, lacks \<^verbatim>\<open>path\<close> (\<^verbatim>\<open>endpoint\<close> in the Ladybug deployment) or declares an unknown
  method, where a method counts as declared when it is truthy.  The file's validation
  throws an Error; loading the file pushes exactly one LoadError for it, holding its path,
  the message and the timestamp taken in its \<^verbatim>\<open>catch\<close> block, and changes nothing else: no
  route, no registry entry, no count.  Its failure neither ends nor skips the rest of the
  walk: the walk goes on with the items after it from the state it had reached, and it
  ends as the same scan without that file ends, with the same uncaught exception or with
  the same routes, registry and counter, the error list holding that one record more
  between those of the items before and after it.  So if the walk completes, every other
  file that validates has its route and its entry in the final state.
\<close>

theorem invalid_module_isolated:
  assumes "scan_items dir root = pre @ FileItem (p, Exports meta h, t) # post"
    and "get_prop meta ''name'' = JUndefined \<or> get_prop meta (path_key flv) = JUndefined
         \<or> unknown_method meta"
  shows "\<exists>msg. validate flv s rx meta h = Inl msg
     \<and> (\<forall>st'. load_file flv s rx (p, Exports meta h, t) st'
           = Inr (st'\<lparr>loadErrors := loadErrors st'
                      @ [\<lparr>file' = p, error = JStr msg, timestamp = t\<rparr>]\<rparr>))
     \<and> loadModules flv s rx dir root st
         = (case run_items flv s rx pre st of
              Inl uncaught \<Rightarrow> Inl uncaught
            | Inr st1 \<Rightarrow>
                run_items flv s rx post
                  (st1\<lparr>loadErrors := loadErrors st1
                         @ [\<lparr>file' = p, error = JStr msg, timestamp = t\<rparr>]\<rparr>))
     \<and> loadModules flv s rx dir root st
         = (case first_abort (pre @ post) of
              Some uncaught \<Rightarrow> Inl uncaught
            | None \<Rightarrow>
                Inr ((after_items flv s rx (pre @ post) st)
                      \<lparr>loadErrors := loadErrors st @ errors_of flv s rx pre
                         @ \<lparr>file' = p, error = JStr msg, timestamp = t\<rparr> # errors_of flv s rx post\<rparr>))
     \<and> run_items flv s rx (pre @ post) st
         = (case first_abort (pre @ post) of
              Some uncaught \<Rightarrow> Inl uncaught
            | None \<Rightarrow> Inr (after_items flv s rx (pre @ post) st))
     \<and> (\<forall>final q meta' h' u rt e.
           loadModules flv s rx dir root st = Inr final
           \<and> FileItem (q, Exports meta' h', u) \<in> set (pre @ post)
           \<and> validate flv s rx meta' h' = Inr (rt, e)
           \<longrightarrow> rt \<in> set (routes final) \<and> e \<in> set (apiModules final))"
proof -
  from validate_rejects [OF assms(2)] obtain msg
    where msg: "validate flv s rx meta h = Inl msg" by blast
  let ?rec = "\<lparr>file' = p, error = JStr msg, timestamp = t\<rparr>"
  let ?bad = "FileItem (p, Exports meta h, t)"
  have step: "load_file flv s rx (p, Exports meta h, t) st'
      = Inr (st'\<lparr>loadErrors := loadErrors st' @ [?rec]\<rparr>)" for st'
    by (simp add: load_file_def msg record_error_def)
  have lm: "loadModules flv s rx dir root st = run_items flv s rx (pre @ ?bad # post) st"
    by (simp add: loadModules_items assms(1))
  have c3: "loadModules flv s rx dir root st
         = (case run_items flv s rx pre st of
              Inl uncaught \<Rightarrow> Inl uncaught
            | Inr st1 \<Rightarrow> run_items flv s rx post (st1\<lparr>loadErrors := loadErrors st1 @ [?rec]\<rparr>))"
    unfolding lm run_items_append by (simp add: step split: sum.splits)
  have ab: "first_abort (pre @ ?bad # post) = first_abort (pre @ post)"
    by (simp add: first_abort_append split: option.splits)
  have ld: "loaded_of flv s rx (pre @ ?bad # post) = loaded_of flv s rx (pre @ post)"
    by (simp add: loaded_of_append loaded_of_Cons msg)
  have er: "errors_of flv s rx (pre @ ?bad # post)
      = errors_of flv s rx pre @ ?rec # errors_of flv s rx post"
    by (simp add: errors_of_append errors_of_Cons msg)
  have af: "after_items flv s rx (pre @ ?bad # post) st
      = (after_items flv s rx (pre @ post) st)
          \<lparr>loadErrors := loadErrors st @ errors_of flv s rx pre @ ?rec # errors_of flv s rx post\<rparr>"
    by (simp add: after_items_def ld er)
  have c4: "loadModules flv s rx dir root st
         = (case first_abort (pre @ post) of
              Some uncaught \<Rightarrow> Inl uncaught
            | None \<Rightarrow>
                Inr ((after_items flv s rx (pre @ post) st)
                      \<lparr>loadErrors := loadErrors st @ errors_of flv s rx pre
                         @ ?rec # errors_of flv s rx post\<rparr>))"
    unfolding lm run_items_closed ab af ..
  have c5: "run_items flv s rx (pre @ post) st
         = (case first_abort (pre @ post) of
              Some uncaught \<Rightarrow> Inl uncaught
            | None \<Rightarrow> Inr (after_items flv s rx (pre @ post) st))"
    by (rule run_items_closed)
  have c6: "\<forall>final q meta' h' u rt e.
           loadModules flv s rx dir root st = Inr final
           \<and> FileItem (q, Exports meta' h', u) \<in> set (pre @ post)
           \<and> validate flv s rx meta' h' = Inr (rt, e)
           \<longrightarrow> rt \<in> set (routes final) \<and> e \<in> set (apiModules final)"
  proof (intro allI impI)
    fix final q meta' h' u rt e
    assume a: "loadModules flv s rx dir root st = Inr final
           \<and> FileItem (q, Exports meta' h', u) \<in> set (pre @ post)
           \<and> validate flv s rx meta' h' = Inr (rt, e)"
    then have m: "(rt, e) \<in> set (loaded_of flv s rx (pre @ post))"
      using loaded_member by blast
    from a c4 have "final = (after_items flv s rx (pre @ post) st)
          \<lparr>loadErrors := loadErrors st @ errors_of flv s rx pre @ ?rec # errors_of flv s rx post\<rparr>"
      by (cases "first_abort (pre @ post)") simp_all
    then have "routes final = routes st @ map fst (loaded_of flv s rx (pre @ post))"
      and "apiModules final = apiModules st @ map snd (loaded_of flv s rx (pre @ post))"
      by (simp_all add: after_items_def)
    with m show "rt \<in> set (routes final) \<and> e \<in> set (apiModules final)" by force
  qed
  from msg step c3 c4 c5 c6 show ?thesis by blast
qed

theorem invalid_module_isolated_witness:
  "scan_items ''/srv/api''
      (Listing [Directory ''example'' (Listing
         [RegularFile ''hello.js'' hello ''2024-01-01T00:00:00.001Z'',
          RegularFile ''broken.js'' (Exports (JObj [(''path'', JStr ''/broken'')]) (Func 2))
             ''2024-01-01T00:00:00.002Z'',
          RegularFile ''goodbye.js'' goodbye ''2024-01-01T00:00:00.003Z''])])
     = [FileItem (''/srv/api/example/hello.js'', hello, ''2024-01-01T00:00:00.001Z'')]
       @ FileItem (''/srv/api/example/broken.js'',
                   Exports (JObj [(''path'', JStr ''/broken'')]) (Func 2),
                   ''2024-01-01T00:00:00.002Z'')
       # [FileItem (''/srv/api/example/goodbye.js'', goodbye, ''2024-01-01T00:00:00.003Z'')]
   \<and> get_prop (JObj [(''path'', JStr ''/broken'')]) ''name'' = JUndefined
   \<and> (\<exists>final. loadModules Api no_settings any_path ''/srv/api''
      (Listing [Directory ''example'' (Listing
         [RegularFile ''hello.js'' hello ''2024-01-01T00:00:00.001Z'',
          RegularFile ''broken.js'' (Exports (JObj [(''path'', JStr ''/broken'')]) (Func 2))
             ''2024-01-01T00:00:00.002Z'',
          RegularFile ''goodbye.js'' goodbye ''2024-01-01T00:00:00.003Z''])]) initial = Inr final
      \<and> loadErrors final
          = [\<lparr>file' = ''/srv/api/example/broken.js'',
              error = JStr ''Missing required meta.path or meta.name'',
              timestamp = ''2024-01-01T00:00:00.002Z''\<rparr>]
      \<and> map r_path (routes final) = [''/api/example/hello'', ''/api/example/goodbye'']
      \<and> totalRoutes final = 2)"
proof -
  let ?bad = "Exports (JObj [(''path'', JStr ''/broken'')]) (Func 2)"
  let ?tree = "Listing [Directory ''example'' (Listing
         [RegularFile ''hello.js'' hello ''2024-01-01T00:00:00.001Z'',
          RegularFile ''broken.js'' ?bad ''2024-01-01T00:00:00.002Z'',
          RegularFile ''goodbye.js'' goodbye ''2024-01-01T00:00:00.003Z''])]"
  let ?pre = "[FileItem (''/srv/api/example/hello.js'', hello, ''2024-01-01T00:00:00.001Z'')]"
  let ?post = "[FileItem (''/srv/api/example/goodbye.js'', goodbye, ''2024-01-01T00:00:00.003Z'')]"
  have h1: "scan_items ''/srv/api'' ?tree
     = ?pre @ FileItem (''/srv/api/example/broken.js'', ?bad, ''2024-01-01T00:00:00.002Z'') # ?post"
    by (simp add: path_join_def path_extname_def)
  have h2: "get_prop (JObj [(''path'', JStr ''/broken'')]) ''name'' = JUndefined
      \<or> get_prop (JObj [(''path'', JStr ''/broken'')]) (path_key Api) = JUndefined
      \<or> unknown_method (JObj [(''path'', JStr ''/broken'')])"
    by (simp add: get_prop_def)
  have v: "validate Api no_settings any_path (JObj [(''path'', JStr ''/broken'')]) (Func 2)
      = Inl ''Missing required meta.path or meta.name''"
    by (simp add: eval_defs)
  have a: "first_abort (?pre @ ?post) = None"
    by (simp add: hello_def goodbye_def)
  have l: "map (r_path \<circ> fst) (loaded_of Api no_settings any_path (?pre @ ?post))
      = [''/api/example/hello'', ''/api/example/goodbye'']"
    by (simp add: loaded_of_def eval_defs)
  have e: "errors_of Api no_settings any_path ?pre = []" "errors_of Api no_settings any_path ?post = []"
    by (simp_all add: errors_of_def eval_defs)
  from invalid_module_isolated [OF h1 h2, where s = no_settings and rx = any_path and st = initial]
  obtain msg where m: "validate Api no_settings any_path (JObj [(''path'', JStr ''/broken'')]) (Func 2)
        = Inl msg"
    and f: "loadModules Api no_settings any_path ''/srv/api'' ?tree initial
         = (case first_abort (?pre @ ?post) of
              Some uncaught \<Rightarrow> Inl uncaught
            | None \<Rightarrow>
                Inr ((after_items Api no_settings any_path (?pre @ ?post) initial)
                      \<lparr>loadErrors := loadErrors initial @ errors_of Api no_settings any_path ?pre
                         @ \<lparr>file' = ''/srv/api/example/broken.js'', error = JStr msg,
                            timestamp = ''2024-01-01T00:00:00.002Z''\<rparr>
                         # errors_of Api no_settings any_path ?post\<rparr>))"
    by blast
  from m v have msg: "msg = ''Missing required meta.path or meta.name''" by simp
  have "loadModules Api no_settings any_path ''/srv/api'' ?tree initial
      = Inr ((after_items Api no_settings any_path (?pre @ ?post) initial)
                      \<lparr>loadErrors := [\<lparr>file' = ''/srv/api/example/broken.js'',
                            error = JStr ''Missing required meta.path or meta.name'',
                            timestamp = ''2024-01-01T00:00:00.002Z''\<rparr>]\<rparr>)"
    unfolding f a e msg by (simp add: initial_def)
  moreover have "map r_path (routes (after_items Api no_settings any_path (?pre @ ?post) initial))
      = [''/api/example/hello'', ''/api/example/goodbye'']"
    using l by (simp add: after_items_def initial_def)
  moreover have "totalRoutes (after_items Api no_settings any_path (?pre @ ?post) initial) = 2"
    using l [THEN arg_cong, of length] by (simp add: after_items_def initial_def)
  ultimately show ?thesis using h1 h2 by (simp add: get_prop_def)
qed

text \<open>
  The claim as first stated fails in two places.  A declared method that is the empty
  string is outside the set of known methods, yet such a module is loaded as a \<^verbatim>\<open>get\<close>
  route and no LoadError is recorded.  And a file's failure can end the walk: when a
  module throws \<^verbatim>\<open>undefined\<close>, the \<^verbatim>\<open>catch\<close> block throws on \<^verbatim>\<open>error.message\<close>, and the valid
  \<^verbatim>\<open>hello.js\<close> after it is not loaded although \<^verbatim>\<open>broken.js\<close>, which lacks its name, is
  in the same scan.
\<close>

theorem empty_method_accepted_and_walk_aborted:
  "get_prop (JObj [(''name'', JStr ''Ping''), (''path'', JStr ''/ping''), (''method'', JStr [])])
      ''method'' = JStr []
   \<and> [] \<notin> set validMethods
   \<and> loadModules Api no_settings any_path ''/srv/api''
        (Listing [RegularFile ''ping.js''
           (Exports (JObj [(''name'', JStr ''Ping''), (''path'', JStr ''/ping''), (''method'', JStr [])])
              (Func 0)) ''2024-01-01T00:00:00.001Z'']) initial
     = Inr \<lparr>totalRoutes = 1,
        apiModules =
          [JObj [(''name'', JStr ''Ping''),
                 (''description'', JStr ''No description provided''),
                 (''category'', JStr ''Uncategorized''),
                 (''path'', JStr ''/api/ping''),
                 (''author'', JStr ''Unknown''),
                 (''method'', JStr ''GET''),
                 (''version'', JStr ''1.0.0''),
                 (''tags'', JArr []),
                 (''deprecated'', JBool False),
                 (''rateLimit'', JNull)]],
        loadErrors = [],
        routes = [\<lparr>r_method = ''get'', r_path = ''/api/ping'', r_handler = 0, r_name = JStr ''Ping''\<rparr>]\<rparr>
   \<and> get_prop (JObj [(''path'', JStr ''/broken'')]) ''name'' = JUndefined
   \<and> loadModules Api no_settings any_path ''/srv/api''
        (Listing [RegularFile ''broken.js'' (Exports (JObj [(''path'', JStr ''/broken'')]) (Func 2))
                     ''2024-01-01T00:00:00.001Z'',
                  RegularFile ''crash.js'' (RequireThrows (Thrown JUndefined))
                     ''2024-01-01T00:00:00.002Z'',
                  RegularFile ''hello.js'' hello ''2024-01-01T00:00:00.003Z'']) initial
     = Inl (msg_read_message JUndefined)"
  by (simp add: eval_defs)

lemma split_on_nonempty: "split_on c s \<noteq> []"
  by (induction s) (auto split: list.splits)

lemma split_on_first: "index_str (split_on c s) 0 = takeWhile (\<lambda>x. x \<noteq> c) s"
proof (induction s)
  case Nil
  then show ?case by (simp add: index_str_def)
next
  case (Cons x s)
  then show ?case
    using split_on_nonempty [of c s]
    by (cases "split_on c s") (auto simp: index_str_def)
qed

lemma split_on_second:
  "c \<in> set s \<Longrightarrow>
   index_str (split_on c s) (Suc 0) = takeWhile (\<lambda>x. x \<noteq> c) (tl (dropWhile (\<lambda>x. x \<noteq> c) s))"
proof (induction s)
  case Nil
  then show ?case by simp
next
  case (Cons x s)
  show ?case
  proof (cases "x = c")
    case True
    then show ?thesis
      using split_on_first [of c s] split_on_nonempty [of c s]
      by (cases "split_on c s") (auto simp: index_str_def)
  next
    case False
    with Cons.prems have "c \<in> set s" by simp
    from Cons.IH [OF this] False show ?thesis
      using split_on_nonempty [of c s]
      by (cases "split_on c s") (auto simp: index_str_def)
  qed
qed

lemma single_separator:
  "c \<in> set s \<Longrightarrow> c \<notin> set (tl (dropWhile (\<lambda>x. x \<noteq> c) s)) \<Longrightarrow>
   takeWhile (\<lambda>x. x \<noteq> c) s @ c # takeWhile (\<lambda>x. x \<noteq> c) (tl (dropWhile (\<lambda>x. x \<noteq> c) s)) = s"
proof -
  assume a: "c \<in> set s" and b: "c \<notin> set (tl (dropWhile (\<lambda>x. x \<noteq> c) s))"
  from a have "dropWhile (\<lambda>x. x \<noteq> c) s \<noteq> []" by simp
  moreover from this have "hd (dropWhile (\<lambda>x. x \<noteq> c) s) = c"
    using hd_dropWhile [of "\<lambda>x. x \<noteq> c" s] by simp
  ultimately have d: "dropWhile (\<lambda>x. x \<noteq> c) s = c # tl (dropWhile (\<lambda>x. x \<noteq> c) s)"
    by (cases "dropWhile (\<lambda>x. x \<noteq> c) s") simp_all
  have s: "s = takeWhile (\<lambda>x. x \<noteq> c) s @ c # tl (dropWhile (\<lambda>x. x \<noteq> c) s)"
    using d by (metis takeWhile_dropWhile_id)
  from b have t: "takeWhile (\<lambda>x. x \<noteq> c) (tl (dropWhile (\<lambda>x. x \<noteq> c) s))
      = tl (dropWhile (\<lambda>x. x \<noteq> c) s)"
    by (auto simp: takeWhile_eq_all_conv)
  show ?thesis unfolding t using s by (rule sym)
qed

lemma validate_paths:
  assumes "validate flv s rx meta h = Inr (rt, e)"
  shows "\<exists>p f. get_prop meta (path_key flv) = JStr p \<and> h = Func f \<and> r_handler rt = f
     \<and> r_path rt = prefix_of flv @ takeWhile (\<lambda>x. x \<noteq> CHR ''?'') p
     \<and> rx (r_path rt) = None
     \<and> get_prop e (path_key flv)
         = JStr (r_path rt @ (if CHR ''?'' \<in> set p
              then CHR ''?'' # takeWhile (\<lambda>x. x \<noteq> CHR ''?'') (tl (dropWhile (\<lambda>x. x \<noteq> CHR ''?'') p))
              else []))"
proof -
  from assms obtain f where h: "h = Func f"
    by (cases h) (auto simp: validate_def split: if_splits)
  from assms obtain p where p: "get_prop meta (path_key flv) = JStr p"
    by (cases "get_prop meta (path_key flv)")
       (auto simp: validate_def h split: if_splits)
  from assms h p obtain m where
    rt: "rt = \<lparr>r_method = toLowerCase m,
              r_path = prefix_of flv @ index_str (split_on CHR ''?'' p) 0,
              r_handler = f, r_name = get_prop meta ''name''\<rparr>"
    and e: "e = registry_entry flv s meta (prefix_of flv @ index_str (split_on CHR ''?'' p) 0) p"
    and r: "rx (prefix_of flv @ index_str (split_on CHR ''?'' p) 0) = None"
    by (auto simp: validate_def Let_def split: if_splits jsval.splits option.splits)
  have disp: "get_prop e (path_key flv)
      = JStr (r_path rt @ (if CHR ''?'' \<in> set p
              then ''?'' @ index_str (split_on CHR ''?'' p) 1 else []))"
    unfolding e rt by (cases flv) (simp_all add: get_prop_def)
  show ?thesis
    using h p rt r disp by (auto simp: split_on_first split_on_second)
qed

text \<open>
  C7.  The route is registered under the prefix followed by the declared path up to its
  first question mark (\<open>validate_paths\<close>).  The display path stored in the registry should
  carry the original query string, and it does when the path has one question mark
  (\<open>validate_paths\<close> with \<open>single_separator\<close>).  But \<^verbatim>\<open>split('?')[1]\<close> is only the part up to
  the second question mark: the module declaring \<^verbatim>\<open>/search?q=a?b\<close> is listed as
  \<^verbatim>\<open>/api/search?q=a\<close>.
\<close>

theorem second_question_mark_cuts_query:
  "loadModules Api no_settings any_path ''/srv/api''
     (Listing [RegularFile ''search.js''
        (Exports (JObj [(''name'', JStr ''Search''), (''path'', JStr ''/search?q=a?b'')]) (Func 0))
        ''2024-01-01T00:00:00.001Z'']) initial
   = Inr \<lparr>totalRoutes = 1,
      apiModules =
        [JObj [(''name'', JStr ''Search''),
               (''description'', JStr ''No description provided''),
               (''category'', JStr ''Uncategorized''),
               (''path'', JStr ''/api/search?q=a''),
               (''author'', JStr ''Unknown''),
               (''method'', JStr ''GET''),
               (''version'', JStr ''1.0.0''),
               (''tags'', JArr []),
               (''deprecated'', JBool False),
               (''rateLimit'', JNull)]],
      loadErrors = [],
      routes = [\<lparr>r_method = ''get'', r_path = ''/api/search'', r_handler = 0,
                 r_name = JStr ''Search''\<rparr>]\<rparr>"
  by (simp add: eval_defs)

lemma load_file_cases:
  "(\<exists>rt e. load_file flv s rx f st
        = Inr (st\<lparr>routes := routes st @ [rt], apiModules := apiModules st @ [e],
                 totalRoutes := totalRoutes st + 1\<rparr>))
   \<or> (\<exists>err. load_file flv s rx f st = Inr (st\<lparr>loadErrors := loadErrors st @ [err]\<rparr>))
   \<or> (\<exists>v. fst (snd f) = RequireThrows (Thrown v) \<and> (v = JUndefined \<or> v = JNull)
        \<and> load_file flv s rx f st = Inl (msg_read_message v))"
proof -
  obtain p r t where f: "f = (p, r, t)" by (cases f)
  show ?thesis
  proof (cases r)
    case (RequireThrows x)
    show ?thesis
    proof (cases x)
      case (Error m k)
      then show ?thesis by (auto simp: f RequireThrows load_file_def record_error_def)
    next
      case (Thrown v)
      then show ?thesis by (auto simp: f RequireThrows load_file_def record_error_def)
    qed
  next
    case (Exports meta onStart)
    then show ?thesis
      by (cases "validate flv s rx meta onStart") (auto simp: f load_file_def record_error_def)
  qed
qed

lemma load_file_invariant:
  "totalRoutes st = length (apiModules st) \<Longrightarrow> load_file flv s rx f st = Inr st' \<Longrightarrow>
   totalRoutes st' = length (apiModules st')"
  using load_file_cases [of flv s rx f st] by auto

lemma run_items_invariant:
  "totalRoutes st = length (apiModules st) \<Longrightarrow> run_items flv s rx items st = Inr st' \<Longrightarrow>
   totalRoutes st' = length (apiModules st')"
  by (cases "first_abort items") (auto simp: run_items_closed after_items_def)

lemma loadModules_invariant:
  "totalRoutes st = length (apiModules st) \<Longrightarrow> loadModules flv s rx dir root st = Inr st' \<Longrightarrow>
   totalRoutes st' = length (apiModules st')"
  unfolding loadModules_items by (rule run_items_invariant)

lemma introspection_reads_only:
  "snd (api_info s pr now req st) = st"
  "snd (api_health s pr tnow now st) = st"
  "snd (api_stats s pr now st) = st"
  by (simp_all add: api_info_def api_health_def api_stats_def split: sum.splits)

text \<open>
  C9.  The counter equals the length of the registry before the scan, and whenever it
  does it still does after a file and after a whole scan that come to their end
  (\<open>load_file_invariant\<close>, \<open>loadModules_invariant\<close>); the handlers of \<^verbatim>\<open>/api/info\<close>,
  \<^verbatim>\<open>/api/health\<close> and \<^verbatim>\<open>/api/stats\<close> hand back the module-level state as they found it
  (\<open>introspection_reads_only\<close>).  Each file processed should either append one registry
  entry and count it, or append one LoadError and leave both alone, and every file does
  the one or the other but for one case (\<open>load_file_cases\<close>): when what the module throws is
  \<^verbatim>\<open>undefined\<close> or \<^verbatim>\<open>null\<close>, the \<^verbatim>\<open>catch\<close> block throws on \<^verbatim>\<open>error.message\<close> before it pushes
  anything.  The file then adds neither an entry nor a LoadError, and the exception ends
  the scan: of \<^verbatim>\<open>hello.js\<close>, \<^verbatim>\<open>crash.js\<close> and \<^verbatim>\<open>goodbye.js\<close> nothing is left but the exception.
\<close>

theorem nullish_throw_escapes_catch:
  "load_file flv s rx (p, RequireThrows (Thrown JUndefined), t) st
     = Inl (msg_read_message JUndefined)
   \<and> load_file flv s rx (p, RequireThrows (Thrown JNull), t) st
     = Inl (msg_read_message JNull)
   \<and> loadModules Api no_settings any_path ''/srv/api''
        (Listing [RegularFile ''hello.js'' hello ''2024-01-01T00:00:00.001Z'',
                  RegularFile ''crash.js'' (RequireThrows (Thrown JUndefined))
                     ''2024-01-01T00:00:00.002Z'',
                  RegularFile ''goodbye.js'' goodbye ''2024-01-01T00:00:00.003Z'']) initial
     = Inl (msg_read_message JUndefined)"
  by (simp add: eval_defs)

section \<open>Properties of the route dispatch wrapper\<close>

lemma timeout_answers_408:
  "timer p = Some d \<Longrightarrow> d \<le> t \<Longrightarrow> \<not> headersSent (res p) \<Longrightarrow>
   step flv s rt (Elapse t now) p
     = p\<lparr>res := send_json flv s now 408 (timeout_body flv), timer := None,
         clock := max (clock p) t\<rparr>"
  by (simp add: on_timeout_def Let_def)

lemma timeout_keeps_handler_running:
  "running (step flv s rt (Elapse t now) p) = running p"
  by (simp add: on_timeout_def Let_def split: option.splits)

lemma resolve_clears_timeout:
  "running p \<Longrightarrow> timer (step flv s rt HandlerResolves p) = None"
  by simp

text \<open>
  C4.  The wrapper arms a timeout 30000 ms after its start; when it fires before anything
  was sent the client gets the 408 body, and the handler is left running
  (\<open>timeout_answers_408\<close>, \<open>timeout_keeps_handler_running\<close>); when the handler's promise
  resolves, \<^verbatim>\<open>clearTimeout\<close> disarms it (\<open>resolve_clears_timeout\<close>).  It should also be
  disarmed when the handler rejects, but the \<^verbatim>\<open>catch\<close> block never calls \<^verbatim>\<open>clearTimeout\<close>:
  after a rejection the timeout is still armed with its deadline.
\<close>

theorem rejection_leaves_timeout_armed:
  "timer (step flv s rt (HandlerRejects x now) (start t r)) = Some (t + 30000)
   \<and> timer (step flv s rt HandlerResolves (start t r)) = None"
  by (cases "message_of x") (simp_all add: start_def Let_def)

lemma step_visible:
  assumes "visible p = visible q"
  shows "visible (step flv s rt ev p) = visible (step flv s rt ev q)"
proof -
  from assms have eq: "res p = res q" "timer p = timer q" "clock p = clock q" "running p = running q"
    by (simp_all add: visible_def)
  show ?thesis
  proof (cases ev)
    case (Elapse t now)
    show ?thesis unfolding Elapse
      by (cases "timer q") (simp_all add: eq visible_def on_timeout_def Let_def)
  next
    case (HandlerSends code data now)
    show ?thesis unfolding HandlerSends
      by (simp add: eq visible_def)
  next
    case HandlerResolves
    show ?thesis unfolding HandlerResolves
      by (simp add: eq visible_def)
  next
    case (HandlerRejects x now)
    show ?thesis unfolding HandlerRejects
      by (cases "message_of x") (simp_all add: eq visible_def Let_def)
  qed
qed

lemma run_visible:
  "visible p = visible q \<Longrightarrow> visible (run flv s rt evs p) = visible (run flv s rt evs q)"
  unfolding run_def
proof (induction evs arbitrary: p q)
  case Nil
  then show ?case by simp
next
  case (Cons ev evs)
  from Cons.prems have "visible (step flv s rt ev p) = visible (step flv s rt ev q)"
    by (rule step_visible)
  then have "visible (fold (step flv s rt) evs (step flv s rt ev p))
      = visible (fold (step flv s rt) evs (step flv s rt ev q))"
    by (rule Cons.IH)
  then show ?case by simp
qed

lemma reject_visible:
  "message_of x1 = Inr m1 \<Longrightarrow> message_of x2 = Inr m2 \<Longrightarrow>
   visible (step flv s rt (HandlerRejects x1 now) p)
     = visible (step flv s rt (HandlerRejects x2 now) p)"
  by (simp add: visible_def Let_def)

lemma sent_response_stays:
  "headersSent (res q) \<Longrightarrow> res (run flv s rt evs q) = res q"
  unfolding run_def
proof (induction evs arbitrary: q)
  case Nil
  then show ?case by simp
next
  case (Cons ev evs)
  have keep: "res (step flv s rt ev q) = res q"
  proof (cases ev)
    case (Elapse t now)
    show ?thesis unfolding Elapse using Cons.prems
      by (cases "timer q") (simp_all add: on_timeout_def Let_def)
  next
    case (HandlerSends code data now)
    show ?thesis unfolding HandlerSends using Cons.prems by simp
  next
    case HandlerResolves
    show ?thesis unfolding HandlerResolves by simp
  next
    case (HandlerRejects x now)
    show ?thesis unfolding HandlerRejects using Cons.prems
      by (cases "message_of x") (simp_all add: Let_def)
  qed
  with Cons.prems Cons.IH [of "step flv s rt ev q"] show ?case by simp
qed

lemma handler_error_not_leaked:
  assumes "message_of x1 = Inr m1" and "message_of x2 = Inr m2"
  shows "res (run flv s rt evs (step flv s rt (HandlerRejects x1 now) p))
     = res (run flv s rt evs (step flv s rt (HandlerRejects x2 now) p))
   \<and> (running p \<and> \<not> headersSent (res p) \<longrightarrow>
        res (step flv s rt (HandlerRejects x1 now) p)
          = send_json flv s now 500 (handler_error_body flv)
        \<and> res (run flv s rt evs (step flv s rt (HandlerRejects x1 now) p))
          = send_json flv s now 500 (handler_error_body flv))"
proof -
  have same: "visible (run flv s rt evs (step flv s rt (HandlerRejects x1 now) p))
     = visible (run flv s rt evs (step flv s rt (HandlerRejects x2 now) p))"
    by (rule run_visible) (rule reject_visible [OF assms])
  have first: "res (step flv s rt (HandlerRejects x1 now) p)
          = send_json flv s now 500 (handler_error_body flv)"
    if "running p" "\<not> headersSent (res p)"
    using that assms(1) by (simp add: Let_def)
  have later: "res (run flv s rt evs (step flv s rt (HandlerRejects x1 now) p))
          = send_json flv s now 500 (handler_error_body flv)"
    if "running p" "\<not> headersSent (res p)"
    using first [OF that] sent_response_stays [of "step flv s rt (HandlerRejects x1 now) p" flv s rt evs]
    by (simp add: send_json_def)
  from same have "res (run flv s rt evs (step flv s rt (HandlerRejects x1 now) p))
     = res (run flv s rt evs (step flv s rt (HandlerRejects x2 now) p))"
    by (simp add: visible_def)
  with first later show ?thesis by blast
qed

lemma handler_error_body_fields:
  "get_prop (res_json flv s now (handler_error_body flv)) ''status'' = JStr ''error''"
  "get_prop (res_json flv s now (handler_error_body flv)) ''code''
     = JStr (case flv of Api \<Rightarrow> ''INTERNAL_ERROR'' | Ladybug \<Rightarrow> ''LADYBUG_ERROR'')"
  "get_prop (res_json flv s now (handler_error_body flv)) ''message''
     = JStr (case flv of Api \<Rightarrow> ''Internal server error'' | Ladybug \<Rightarrow> ''Internal Ladybug error'')"
  by (cases flv; simp add: res_json_def spread_def get_prop_def js_or_def)+

text \<open>
  C5.  When the handler fails with an Error object, or with any value but \<^verbatim>\<open>undefined\<close> and
  \<^verbatim>\<open>null\<close>, the response does not depend on what was thrown, whatever happens afterwards,
  and if nothing had been sent it is the status 500 with the enveloped fixed body
  (\<open>handler_error_not_leaked\<close>, \<open>handler_error_body_fields\<close>): message and stack reach the
  console only.  The same should hold for every exception.  But the \<^verbatim>\<open>catch\<close> block reads
  \<^verbatim>\<open>error.message\<close> first, and for a handler that throws \<^verbatim>\<open>undefined\<close> or \<^verbatim>\<open>null\<close> (or rejects
  without a reason) that read throws: nothing is printed, no 500 is sent, and the
  TypeError leaves the wrapper as an unhandled rejection.
\<close>

theorem nullish_rejection_unanswered:
  "res (step flv s rt (HandlerRejects (Error msg stack) now) (start t fresh))
     = send_json flv s now 500 (handler_error_body flv)
   \<and> res (step flv s rt (HandlerRejects (Thrown JUndefined) now) (start t fresh)) = fresh
   \<and> console (step flv s rt (HandlerRejects (Thrown JUndefined) now) (start t fresh)) = []
   \<and> unhandled (step flv s rt (HandlerRejects (Thrown JUndefined) now) (start t fresh))
     = [msg_read_message JUndefined]
   \<and> res (step flv s rt (HandlerRejects (Thrown JNull) now) (start t fresh)) = fresh
   \<and> unhandled (step flv s rt (HandlerRejects (Thrown JNull) now) (start t fresh))
     = [msg_read_message JNull]"
  by (simp add: start_def fresh_def Let_def)

section \<open>Properties of the fallback handlers\<close>





lemma startsWith_iff: "startsWith u pre = (\<exists>rest. u = pre @ rest)"
proof
  assume "startsWith u pre"
  then have "u = pre @ drop (length pre) u"
    by (metis startsWith_def append_take_drop_id)
  then show "\<exists>rest. u = pre @ rest" ..
next
  assume "\<exists>rest. u = pre @ rest"
  then show "startsWith u pre" by (auto simp: startsWith_def)
qed

text \<open>
  C10.  Both fallback handlers choose between JSON and the static page by testing whether
  the URL starts with the prefix followed by a slash.  A URL that is the bare prefix, or
  that continues the prefix with another character than a slash, gets the static page
  from both; a URL that is the prefix, a slash and anything gets JSON from both (from the
  error handler through the envelope or not, as the request had passed it or not); and
  the 404 (500) page is sent exactly when the URL does not have the second form.
\<close>

theorem prefix_needs_slash:
  "(req_url req = prefix_of flv
      \<or> (\<exists>c rest. c \<noteq> CHR ''/'' \<and> req_url req = prefix_of flv @ c # rest)
      \<longrightarrow> not_found flv s now req = send_file 404 (page_404 flv)
        \<and> server_error flv s now enveloped req = send_file 500 (page_500 flv))
   \<and> ((\<exists>rest. req_url req = prefix_of flv @ ''/'' @ rest)
      \<longrightarrow> not_found flv s now req = send_json flv s now 404 (not_found_body flv)
        \<and> server_error flv s now enveloped req
            = (if enveloped then send_json flv s now 500 (server_error_body flv)
               else send_plain 500 (server_error_body flv)))
   \<and> (sent (not_found flv s now req) = Some (File (page_404 flv)))
      = (\<not> (\<exists>rest. req_url req = prefix_of flv @ ''/'' @ rest))
   \<and> (sent (server_error flv s now enveloped req) = Some (File (page_500 flv)))
      = (\<not> (\<exists>rest. req_url req = prefix_of flv @ ''/'' @ rest))"
proof -
  have a: "\<not> startsWith (req_url req) (prefix_of flv @ ''/'')"
    if "req_url req = prefix_of flv \<or> (\<exists>c rest. c \<noteq> CHR ''/'' \<and> req_url req = prefix_of flv @ c # rest)"
    using that by (auto simp: startsWith_def)
  have b: "startsWith (req_url req) (prefix_of flv @ ''/'') = (\<exists>rest. req_url req = prefix_of flv @ ''/'' @ rest)"
    by (simp add: startsWith_iff)
  have 1: "req_url req = prefix_of flv
      \<or> (\<exists>c rest. c \<noteq> CHR ''/'' \<and> req_url req = prefix_of flv @ c # rest)
      \<longrightarrow> not_found flv s now req = send_file 404 (page_404 flv)
        \<and> server_error flv s now enveloped req = send_file 500 (page_500 flv)"
    using a by (simp add: not_found_def server_error_def)
  have 2: "(\<exists>rest. req_url req = prefix_of flv @ ''/'' @ rest)
      \<longrightarrow> not_found flv s now req = send_json flv s now 404 (not_found_body flv)
        \<and> server_error flv s now enveloped req
            = (if enveloped then send_json flv s now 500 (server_error_body flv)
               else send_plain 500 (server_error_body flv))"
    unfolding b [symmetric] by (simp add: not_found_def server_error_def)
  have 3: "(sent (not_found flv s now req) = Some (File (page_404 flv)))
      = (\<not> (\<exists>rest. req_url req = prefix_of flv @ ''/'' @ rest))"
    unfolding b [symmetric] by (simp add: not_found_def send_json_def send_file_def)
  have 4: "(sent (server_error flv s now enveloped req) = Some (File (page_500 flv)))
      = (\<not> (\<exists>rest. req_url req = prefix_of flv @ ''/'' @ rest))"
    unfolding b [symmetric]
    by (simp add: server_error_def send_json_def send_plain_def send_file_def)
  from 1 2 3 4 show ?thesis by blast
qed

theorem prefix_needs_slash_witness:
  "not_found Api no_settings ''2024-01-01T00:00:09.000Z'' \<lparr>req_method = ''GET'', req_url = ''/api''\<rparr>
     = \<lparr>headersSent = True, statusCode = 404, sent = Some (File ''web/404.html'')\<rparr>
   \<and> not_found Api no_settings ''2024-01-01T00:00:09.000Z'' \<lparr>req_method = ''GET'', req_url = ''/apix''\<rparr>
     = \<lparr>headersSent = True, statusCode = 404, sent = Some (File ''web/404.html'')\<rparr>
   \<and> server_error Ladybug no_settings ''2024-01-01T00:00:09.000Z'' True
        \<lparr>req_method = ''GET'', req_url = ''/ladybug''\<rparr>
     = \<lparr>headersSent = True, statusCode = 500, sent = Some (File ''web/ladybug-500.html'')\<rparr>
   \<and> not_found Ladybug no_settings ''2024-01-01T00:00:09.000Z''
        \<lparr>req_method = ''GET'', req_url = ''/ladybug/x''\<rparr>
     = send_json Ladybug no_settings ''2024-01-01T00:00:09.000Z'' 404 (not_found_body Ladybug)
   \<and> server_error Api no_settings ''2024-01-01T00:00:09.000Z'' False
        \<lparr>req_method = ''POST'', req_url = ''/api/x''\<rparr>
     = send_plain 500 (server_error_body Api)"
proof -
  note a = prefix_needs_slash [where flv = Api and s = no_settings
      and now = "''2024-01-01T00:00:09.000Z''" and req = "\<lparr>req_method = ''GET'', req_url = ''/api''\<rparr>"]
  note b = prefix_needs_slash [where flv = Api and s = no_settings
      and now = "''2024-01-01T00:00:09.000Z''" and req = "\<lparr>req_method = ''GET'', req_url = ''/apix''\<rparr>"]
  note c = prefix_needs_slash [where flv = Ladybug and s = no_settings and enveloped = True
      and now = "''2024-01-01T00:00:09.000Z''" and req = "\<lparr>req_method = ''GET'', req_url = ''/ladybug''\<rparr>"]
  note d = prefix_needs_slash [where flv = Ladybug and s = no_settings
      and now = "''2024-01-01T00:00:09.000Z''" and req = "\<lparr>req_method = ''GET'', req_url = ''/ladybug/x''\<rparr>"]
  note e = prefix_needs_slash [where flv = Api and s = no_settings and enveloped = False
      and now = "''2024-01-01T00:00:09.000Z''" and req = "\<lparr>req_method = ''POST'', req_url = ''/api/x''\<rparr>"]
  have 1: "not_found Api no_settings ''2024-01-01T00:00:09.000Z'' \<lparr>req_method = ''GET'', req_url = ''/api''\<rparr>
     = \<lparr>headersSent = True, statusCode = 404, sent = Some (File ''web/404.html'')\<rparr>"
    using a by (simp add: send_file_def)
  have 2: "not_found Api no_settings ''2024-01-01T00:00:09.000Z'' \<lparr>req_method = ''GET'', req_url = ''/apix''\<rparr>
     = \<lparr>headersSent = True, statusCode = 404, sent = Some (File ''web/404.html'')\<rparr>"
    using b by (simp add: send_file_def)
  have 3: "server_error Ladybug no_settings ''2024-01-01T00:00:09.000Z'' True
        \<lparr>req_method = ''GET'', req_url = ''/ladybug''\<rparr>
     = \<lparr>headersSent = True, statusCode = 500, sent = Some (File ''web/ladybug-500.html'')\<rparr>"
    using c by (simp add: send_file_def)
  have 4: "not_found Ladybug no_settings ''2024-01-01T00:00:09.000Z''
        \<lparr>req_method = ''GET'', req_url = ''/ladybug/x''\<rparr>
     = send_json Ladybug no_settings ''2024-01-01T00:00:09.000Z'' 404 (not_found_body Ladybug)"
    using d by simp
  have 5: "server_error Api no_settings ''2024-01-01T00:00:09.000Z'' False
        \<lparr>req_method = ''POST'', req_url = ''/api/x''\<rparr>
     = send_plain 500 (server_error_body Api)"
    using e by simp
  from 1 2 3 4 5 show ?thesis by blast
qed

section \<open>Properties of the introspection endpoints\<close>

lemma set_add_primitive:
  "primitive v \<Longrightarrow> set_add v seen = (if v \<in> set seen then seen else seen @ [v])"
  by (cases v) (auto simp: set_add_def list_ex_iff)

lemma fold_set_add:
  "\<forall>v \<in> set xs. primitive v \<Longrightarrow> distinct acc \<Longrightarrow>
   distinct (fold set_add xs acc) \<and> set (fold set_add xs acc) = set acc \<union> set xs"
proof (induction xs arbitrary: acc)
  case Nil
  then show ?case by simp
next
  case (Cons x xs)
  from Cons.prems have px: "primitive x" and pxs: "\<forall>v \<in> set xs. primitive v" by simp_all
  have d: "distinct (set_add x acc)" and s: "set (set_add x acc) = insert x (set acc)"
    using Cons.prems(2) by (auto simp: set_add_primitive [OF px])
  from Cons.IH [OF pxs d] s show ?case by auto
qed

lemma category_count:
  assumes "\<forall>m \<in> set ms. primitive (get_prop m ''category'')"
  shows "length (category_set ms) = card ((\<lambda>m. get_prop m ''category'') ` set ms)"
proof -
  have p: "\<forall>v \<in> set (map (\<lambda>m. get_prop m ''category'') ms). primitive v"
    using assms by simp
  from fold_set_add [OF p, of "[]"]
  have "distinct (category_set ms)"
    and "set (category_set ms) = (\<lambda>m. get_prop m ''category'') ` set ms"
    by (simp_all add: category_set_def)
  then show ?thesis by (metis distinct_card)
qed

lemma stats_after_scan:
  "loadModules flv s rx dir root initial = Inr st \<Longrightarrow>
   stats_body pr st
   = JObj [(''totalRoutes'', JNum (int (length (loaded_of flv s rx (scan_items dir root))))),
           (''loadErrors'', JNum (int (length (errors_of flv s rx (scan_items dir root))))),
           (''categories'',
            JNum (int (length (category_set (map snd (loaded_of flv s rx (scan_items dir root))))))),
           (''methods'', JObj (fold count_method (map snd (loaded_of flv s rx (scan_items dir root))) [])),
           (''uptime'', uptime pr),
           (''nodeVersion'', JStr (nodeVersion pr))]"
  by (cases "first_abort (scan_items dir root)")
     (auto simp: stats_body_def loadModules_items run_items_closed after_items_def initial_def)

lemma info_step_ok:
  assumes "to_string (get_prop m ''category'') \<notin> set object_prototype_keys"
    and "distinct (map fst cats)"
  shows "\<exists>cats'. info_step m (cats, n) = Inr (cats', n + 1)
     \<and> distinct (map fst cats')
     \<and> set (map fst cats') = insert (to_string (get_prop m ''category'')) (set (map fst cats))"
proof -
  define key where "key = to_string (get_prop m ''category'')"
  define created where "created =
     (if map_of cats key = None \<and> key \<notin> set object_prototype_keys
      then set_prop key (JObj [(''name'', get_prop m ''category''), (''count'', JNum 0),
                               (''items'', JArr [])]) cats
      else cats)"
  have np: "key \<notin> set object_prototype_keys"
    using assms(1) by (simp add: key_def)
  have dc: "distinct (map fst created)"
    using assms(2) by (simp add: created_def distinct_set_prop)
  have kc: "set (map fst created) = insert key (set (map fst cats))"
  proof (cases "map_of cats key")
    case None
    then have "key \<notin> fst ` set cats" by (simp add: map_of_eq_None_iff)
    with None np show ?thesis by (simp add: created_def keys_set_prop)
  next
    case (Some g)
    then have "key \<in> fst ` set cats" by (metis map_of_eq_None_iff option.distinct(1))
    with Some show ?thesis by (auto simp: created_def)
  qed
  then have in_c: "key \<in> fst ` set created" by auto
  then have "map_of created key \<noteq> None"
    by (simp add: map_of_eq_None_iff)
  then obtain g where g: "map_of created key = Some g" by blast
  define g2 where "g2 =
     set_prop ''count''
       (plus_one (get_prop (JObj (set_prop ''items'' (push (get_prop g ''items'') (info_item m))
                                     (own_props g))) ''count''))
       (set_prop ''items'' (push (get_prop g ''items'') (info_item m)) (own_props g))"
  have r: "info_step m (cats, n) = Inr (set_prop key (JObj g2) created, n + 1)"
    unfolding info_step_def Let_def prod.case key_def [symmetric] created_def [symmetric]
    by (simp only: g option.case g2_def)
  have k: "map fst (set_prop key (JObj g2) created) = map fst created"
    using in_c by (simp only: keys_set_prop if_True)
  show ?thesis
  proof (intro exI conjI)
    show "info_step m (cats, n) = Inr (set_prop key (JObj g2) created, n + 1)" by (rule r)
    show "distinct (map fst (set_prop key (JObj g2) created))" unfolding k by (rule dc)
    show "set (map fst (set_prop key (JObj g2) created))
        = insert (to_string (get_prop m ''category'')) (set (map fst cats))"
      unfolding k using kc by (simp only: key_def)
  qed
qed

lemma info_loop_ok:
  assumes "\<forall>m \<in> set ms. to_string (get_prop m ''category'') \<notin> set object_prototype_keys"
    and "distinct (map fst cats)"
  shows "\<exists>cats'. info_loop ms (cats, n) = Inr (cats', n + int (length ms))
     \<and> distinct (map fst cats')
     \<and> set (map fst cats')
         = set (map fst cats) \<union> (\<lambda>m. to_string (get_prop m ''category'')) ` set ms"
  using assms
proof (induction ms arbitrary: cats n)
  case Nil
  then show ?case by simp
next
  case (Cons m ms)
  from Cons.prems have pm: "to_string (get_prop m ''category'') \<notin> set object_prototype_keys"
    and pms: "\<forall>m \<in> set ms. to_string (get_prop m ''category'') \<notin> set object_prototype_keys"
    by simp_all
  from info_step_ok [OF pm Cons.prems(2), of n] obtain c1 where
    s1: "info_step m (cats, n) = Inr (c1, n + 1)" and d1: "distinct (map fst c1)"
    and k1: "set (map fst c1) = insert (to_string (get_prop m ''category'')) (set (map fst cats))"
    by blast
  from Cons.IH [OF pms d1, of "n + 1"] obtain c2 where
    s2: "info_loop ms (c1, n + 1) = Inr (c2, n + 1 + int (length ms))"
    and d2: "distinct (map fst c2)"
    and k2: "set (map fst c2) = set (map fst c1) \<union> (\<lambda>m. to_string (get_prop m ''category'')) ` set ms"
    by blast
  have "info_loop (m # ms) (cats, n) = Inr (c2, n + int (length (m # ms)))"
    by (simp add: s1 s2)
  moreover have "set (map fst c2)
      = set (map fst cats) \<union> (\<lambda>m. to_string (get_prop m ''category'')) ` set (m # ms)"
    unfolding k2 k1 by auto
  ultimately show ?case using d2 by blast
qed

lemma info_summary:
  assumes "\<forall>m \<in> set (apiModules st). to_string (get_prop m ''category'') \<notin> set object_prototype_keys"
  shows "\<exists>groups. info_body pr st =
     Inr (JObj [(''categories'', JArr groups),
                (''summary'',
                 JObj [(''totalEndpoints'', JNum (int (length (apiModules st)))),
                       (''totalCategories'',
                        JNum (int (card ((\<lambda>m. to_string (get_prop m ''category'')) ` set (apiModules st))))),
                       (''loadErrors'', JNum (int (length (loadErrors st)))),
                       (''serverUptime'', uptime pr)])])"
proof -
  from info_loop_ok [OF assms, of "[]" 0] obtain cats where
    l: "info_loop (apiModules st) ([], 0) = Inr (cats, int (length (apiModules st)))"
    and d: "distinct (map fst cats)"
    and k: "set (map fst cats) = (\<lambda>m. to_string (get_prop m ''category'')) ` set (apiModules st)"
    by auto
  from d have "length cats = card (set (map fst cats))"
    by (metis distinct_card length_map)
  with k have n: "length cats = card ((\<lambda>m. to_string (get_prop m ''category'')) ` set (apiModules st))"
    by simp
  show ?thesis
    by (rule exI [of _ "map snd cats"]) (simp add: info_body_def l n)
qed

text \<open>
  C8.  After a scan, \<^verbatim>\<open>/api/stats\<close> reports the number of loaded modules, the number of
  their distinct categories and the number of load errors (\<open>stats_after_scan\<close>,
  \<open>category_count\<close>), and so does the summary of \<^verbatim>\<open>/api/info\<close> as long as no category is
  named like a key of \<^verbatim>\<open>Object.prototype\<close> (\<open>info_summary\<close>).  But \<^verbatim>\<open>/api/info\<close> groups the
  entries in an object literal, which inherits those keys: with one valid module of
  category \<^verbatim>\<open>constructor\<close> loaded, \<^verbatim>\<open>/api/stats\<close> counts one route and one category, while
  \<^verbatim>\<open>/api/info\<close> throws and the client gets the 500 error body instead of a summary.
\<close>

theorem prototype_category_breaks_info:
  "loadModules Api no_settings any_path ''/srv/api''
      (Listing [RegularFile ''build.js''
         (Exports (JObj [(''name'', JStr ''Builder''), (''path'', JStr ''/build''),
                         (''category'', JStr ''constructor'')]) (Func 0))
         ''2024-01-01T00:00:00.001Z'']) initial
    = Inr \<lparr>totalRoutes = 1,
       apiModules =
        [JObj [(''name'', JStr ''Builder''),
               (''description'', JStr ''No description provided''),
               (''category'', JStr ''constructor''),
               (''path'', JStr ''/api/build''),
               (''author'', JStr ''Unknown''),
               (''method'', JStr ''GET''),
               (''version'', JStr ''1.0.0''),
               (''tags'', JArr []),
               (''deprecated'', JBool False),
               (''rateLimit'', JNull)]],
      loadErrors = [],
      routes = [\<lparr>r_method = ''get'', r_path = ''/api/build'', r_handler = 0,
                 r_name = JStr ''Builder''\<rparr>]\<rparr>
   \<and> get_prop (stats_body pr \<lparr>totalRoutes = 1,
       apiModules =
        [JObj [(''name'', JStr ''Builder''),
               (''description'', JStr ''No description provided''),
               (''category'', JStr ''constructor''),
               (''path'', JStr ''/api/build''),
               (''author'', JStr ''Unknown''),
               (''method'', JStr ''GET''),
               (''version'', JStr ''1.0.0''),
               (''tags'', JArr []),
               (''deprecated'', JBool False),
               (''rateLimit'', JNull)]],
      loadErrors = [],
      routes = [\<lparr>r_method = ''get'', r_path = ''/api/build'', r_handler = 0,
                 r_name = JStr ''Builder''\<rparr>]\<rparr>) ''categories'' = JNum 1
   \<and> info_body pr \<lparr>totalRoutes = 1,
       apiModules =
        [JObj [(''name'', JStr ''Builder''),
               (''description'', JStr ''No description provided''),
               (''category'', JStr ''constructor''),
               (''path'', JStr ''/api/build''),
               (''author'', JStr ''Unknown''),
               (''method'', JStr ''GET''),
               (''version'', JStr ''1.0.0''),
               (''tags'', JArr []),
               (''deprecated'', JBool False),
               (''rateLimit'', JNull)]],
      loadErrors = [],
      routes = [\<lparr>r_method = ''get'', r_path = ''/api/build'', r_handler = 0,
                 r_name = JStr ''Builder''\<rparr>]\<rparr> = Inl msg_push_undefined
   \<and> fst (api_info no_settings pr now \<lparr>req_method = ''GET'', req_url = ''/api/info''\<rparr>
        \<lparr>totalRoutes = 1,
       apiModules =
        [JObj [(''name'', JStr ''Builder''),
               (''description'', JStr ''No description provided''),
               (''category'', JStr ''constructor''),
               (''path'', JStr ''/api/build''),
               (''author'', JStr ''Unknown''),
               (''method'', JStr ''GET''),
               (''version'', JStr ''1.0.0''),
               (''tags'', JArr []),
               (''deprecated'', JBool False),
               (''rateLimit'', JNull)]],
      loadErrors = [],
      routes = [\<lparr>r_method = ''get'', r_path = ''/api/build'', r_handler = 0,
                 r_name = JStr ''Builder''\<rparr>]\<rparr>)
     = send_json Api no_settings now 500 (server_error_body Api)"
proof -
  have i: "info_step
        (JObj [(''name'', JStr ''Builder''),
               (''description'', JStr ''No description provided''),
               (''category'', JStr ''constructor''),
               (''path'', JStr ''/api/build''),
               (''author'', JStr ''Unknown''),
               (''method'', JStr ''GET''),
               (''version'', JStr ''1.0.0''),
               (''tags'', JArr []),
               (''deprecated'', JBool False),
               (''rateLimit'', JNull)]) ([], 0) = Inl msg_push_undefined"
    by (simp add: info_step_def get_prop_def object_prototype_keys_def Let_def)
  have 1: "loadModules Api no_settings any_path ''/srv/api''
      (Listing [RegularFile ''build.js''
         (Exports (JObj [(''name'', JStr ''Builder''), (''path'', JStr ''/build''),
                         (''category'', JStr ''constructor'')]) (Func 0))
         ''2024-01-01T00:00:00.001Z'']) initial
    = Inr \<lparr>totalRoutes = 1,
       apiModules =
        [JObj [(''name'', JStr ''Builder''),
               (''description'', JStr ''No description provided''),
               (''category'', JStr ''constructor''),
               (''path'', JStr ''/api/build''),
               (''author'', JStr ''Unknown''),
               (''method'', JStr ''GET''),
               (''version'', JStr ''1.0.0''),
               (''tags'', JArr []),
               (''deprecated'', JBool False),
               (''rateLimit'', JNull)]],
      loadErrors = [],
      routes = [\<lparr>r_method = ''get'', r_path = ''/api/build'', r_handler = 0,
                 r_name = JStr ''Builder''\<rparr>]\<rparr>"
    by (simp add: eval_defs)
  show ?thesis
    unfolding 1
    by (simp add: i info_body_def api_info_def server_error_def startsWith_def stats_body_def
        get_prop_def category_set_def set_add_def)
qed

end
